theory Spec2Isabelle
  imports Complex_Main "HOL-Library.Monad_Syntax" "HOL-Library.Word"
    "HOL-Library.Signed_Division" "HOL-Library.Multiset"
begin

section \<open>Data model of m7.h\<close>

text \<open>
  C \<^verbatim>\<open>float\<close> values are modelled as real numbers: rounding is not modelled. A float
  division whose divisor is zero leaves the real numbers (IEEE gives an infinity or a NaN);
  such a result is the value \<open>None\<close> of \<open>fdiv\<close>, and every function that divides
  returns an option. C \<^verbatim>\<open>int\<close> values (texture dimensions, uniform locations) are
  integers, with C's truncating division \<open>sdiv\<close>; \<^verbatim>\<open>uint32_t\<close> is \<open>32 word\<close>.
\<close>

definition fdiv :: "real \<Rightarrow> real \<Rightarrow> real option" where
  "fdiv a b = (if b = 0 then None else Some (a / b))"

record Vector2 =
  v2_x :: real
  v2_y :: real

record Vector3 =
  v3_x :: real
  v3_y :: real
  v3_z :: real

record Rectangle =
  rec_x :: real
  rec_y :: real
  rec_width :: real
  rec_height :: real

record Matrix2x2 =
  m0 :: real
  m1 :: real
  m2 :: real
  m3 :: real

datatype Color = RGBA "8 word" "8 word" "8 word" "8 word"

record Texture2D =
  tex_id :: "32 word"
  tex_width :: int
  tex_height :: int

record RenderTexture =
  rt_id :: "32 word"
  rt_texture :: Texture2D

record Shader =
  shader_id :: "32 word"

record M7_ZBuffer_Element_SpaceData =
  rectangle :: Rectangle
  position_sd :: Vector2
  scale :: Vector2

datatype M7_ZBuffer_Element_Type = M7_ZBT_TEXTURE | M7_ZBT_RECTANGLE | M7_ZBT_CIRCLE

record M7_ZBuffer_Element =
  onWorld :: M7_ZBuffer_Element_SpaceData
  onScreen :: M7_ZBuffer_Element_SpaceData
  texture :: Texture2D
  distance :: real
  tint :: Color
  type :: M7_ZBuffer_Element_Type

text \<open>
  The two arrays of the buffer are lists; a pointer into \<open>elems\<close> is the index of the
  slot it points to. A slot that \<open>malloc\<close> returned and nothing has written yet is
  \<open>None\<close>; a null array pointer is the empty list.
\<close>

record M7_ZBuffer =
  ptrElems :: "nat option list"
  elems :: "M7_ZBuffer_Element option list"
  maxCount :: "32 word"
  count :: "32 word"

record M7_PlaneProgram =
  shader :: Shader
  locMapTex :: int
  locMapSize :: int
  locCamPos :: int
  locCamRot :: int
  locZoom :: int
  locFOV :: int
  locOffset :: int
  locWrap :: int

record M7_Camera =
  planeProgram :: M7_PlaneProgram
  target :: RenderTexture
  buffer :: M7_ZBuffer
  rotMat :: Matrix2x2
  position :: Vector2
  rotation :: real
  zoom :: real
  fov :: real
  offset :: real
  aspect :: real

text \<open>
  The calls into raylib and OpenGL that change the graphics state, in the order a function
  issues them, are its second result.
\<close>

datatype uniform_value =
    UNIFORM_FLOAT real
  | UNIFORM_VEC2 real real
  | UNIFORM_INT int

datatype gfx_call =
    BeginTextureMode RenderTexture
  | ClearBackground Color
  | EndTextureMode
  | SetShaderValue Shader int uniform_value
  | glUseProgram "32 word"
  | glUniformMatrix2fv int Matrix2x2
  | BeginShaderMode Shader
  | SetShaderValueTexture Shader int Texture2D
  | DrawTexture Texture2D int int Color
  | EndShaderMode
  | DrawTexturePro Texture2D Rectangle Rectangle Vector2 real Color
  | DrawRectangleRec Rectangle Color
  | DrawCircleV Vector2 real Color
  | UnloadShader Shader
  | UnloadRenderTexture RenderTexture

definition WHITE :: Color where
  "WHITE = RGBA 255 255 255 255"

definition Vector2_zero :: Vector2 where
  "Vector2_zero = \<lparr>v2_x = 0, v2_y = 0\<rparr>"

definition Rectangle_zero :: Rectangle where
  "Rectangle_zero = \<lparr>rec_x = 0, rec_y = 0, rec_width = 0, rec_height = 0\<rparr>"

definition SpaceData_zero :: M7_ZBuffer_Element_SpaceData where
  "SpaceData_zero = \<lparr>rectangle = Rectangle_zero, position_sd = Vector2_zero, scale = Vector2_zero\<rparr>"

definition Texture2D_zero :: Texture2D where
  "Texture2D_zero = \<lparr>tex_id = 0, tex_width = 0, tex_height = 0\<rparr>"

section \<open>Camera setters\<close>

definition M7_Camera_SetPosition :: "M7_Camera \<Rightarrow> Vector2 \<Rightarrow> M7_Camera \<times> gfx_call list" where
  "M7_Camera_SetPosition camera pos = (camera\<lparr>position := pos\<rparr>, [])"

definition M7_Camera_SetRotation :: "M7_Camera \<Rightarrow> real \<Rightarrow> M7_Camera \<times> gfx_call list" where
  "M7_Camera_SetRotation camera rot =
     (let cosR = cos rot;
          sinR = sin rot;
          camera' = camera\<lparr>rotation := rot,
                      rotMat := \<lparr>m0 = cosR, m1 = - sinR, m2 = sinR, m3 = cosR\<rparr>\<rparr>
      in (camera',
          [glUseProgram (shader_id (shader (planeProgram camera'))),
           glUniformMatrix2fv (locCamRot (planeProgram camera')) (rotMat camera')]))"

definition M7_Camera_SetZoom :: "M7_Camera \<Rightarrow> real \<Rightarrow> M7_Camera \<times> gfx_call list" where
  "M7_Camera_SetZoom camera z =
     (camera\<lparr>zoom := z\<rparr>,
      [SetShaderValue (shader (planeProgram camera)) (locZoom (planeProgram camera)) (UNIFORM_FLOAT z)])"

definition M7_Camera_SetFOV :: "M7_Camera \<Rightarrow> real \<Rightarrow> M7_Camera \<times> gfx_call list" where
  "M7_Camera_SetFOV camera f =
     (camera\<lparr>fov := f\<rparr>,
      [SetShaderValue (shader (planeProgram camera)) (locFOV (planeProgram camera)) (UNIFORM_FLOAT f)])"

definition M7_Camera_SetOffset :: "M7_Camera \<Rightarrow> real \<Rightarrow> M7_Camera \<times> gfx_call list" where
  "M7_Camera_SetOffset camera off =
     (camera\<lparr>offset := off\<rparr>,
      [SetShaderValue (shader (planeProgram camera)) (locOffset (planeProgram camera)) (UNIFORM_FLOAT off)])"

definition M7_Camera_Translate :: "M7_Camera \<Rightarrow> real \<Rightarrow> real \<Rightarrow> M7_Camera \<times> gfx_call list" where
  "M7_Camera_Translate camera dx dy =
     M7_Camera_SetPosition camera
       \<lparr>v2_x = v2_x (position camera) + (dx * m0 (rotMat camera) + dy * m1 (rotMat camera)),
        v2_y = v2_y (position camera) + (dx * m2 (rotMat camera) + dy * m3 (rotMat camera))\<rparr>"

definition M7_Camera_Rotate :: "M7_Camera \<Rightarrow> real \<Rightarrow> M7_Camera \<times> gfx_call list" where
  "M7_Camera_Rotate camera delta = M7_Camera_SetRotation camera (rotation camera + delta)"

section \<open>The projective transform\<close>

definition M7_ToScreen :: "M7_Camera \<Rightarrow> Vector2 \<Rightarrow> Vector3 option" where
  "M7_ToScreen camera point = do {
     objX \<leftarrow> fdiv (- (v2_x (position camera) - v2_x point)) (zoom camera);
     objY \<leftarrow> fdiv (v2_y (position camera) - v2_y point) (zoom camera);
     let spaceX = - objX * m0 (rotMat camera) - objY * m1 (rotMat camera);
     let spaceY = (objX * m2 (rotMat camera) + objY * m3 (rotMat camera)) * fov camera;
     let distance = 1 - spaceY;
     qX \<leftarrow> fdiv spaceX distance;
     let screenPosX = qX * offset camera * real_of_int (tex_width (rt_texture (target camera)))
                      + real_of_int (tex_width (rt_texture (target camera)) sdiv 2);
     qY \<leftarrow> fdiv (spaceY + offset camera - 1) distance;
     let screenPosY = qY * real_of_int (tex_height (rt_texture (target camera)))
                      + real_of_int (tex_height (rt_texture (target camera)));
     size \<leftarrow> fdiv (offset camera * real_of_int (tex_width (rt_texture (target camera))))
                  (zoom camera * distance);
     Some \<lparr>v3_x = screenPosX, v3_y = screenPosY, v3_z = size\<rparr>
   }"

text \<open>
  The locals \<open>spaceX\<close> and \<open>spaceY\<close> of \<open>M7_ToScreen\<close> as expressions over the reals
  (they are the values the function computes when \<open>zoom\<close> is not zero); the local
  \<open>distance\<close> is \<open>1 - spaceY\<close>.
\<close>

definition M7_spaceX :: "M7_Camera \<Rightarrow> Vector2 \<Rightarrow> real" where
  "M7_spaceX camera point =
     (let objX = - (v2_x (position camera) - v2_x point) / zoom camera;
          objY = (v2_y (position camera) - v2_y point) / zoom camera
      in - objX * m0 (rotMat camera) - objY * m1 (rotMat camera))"

definition M7_spaceY :: "M7_Camera \<Rightarrow> Vector2 \<Rightarrow> real" where
  "M7_spaceY camera point =
     (let objX = - (v2_x (position camera) - v2_x point) / zoom camera;
          objY = (v2_y (position camera) - v2_y point) / zoom camera
      in (objX * m2 (rotMat camera) + objY * m3 (rotMat camera)) * fov camera)"

definition M7_ToWorld :: "M7_Camera \<Rightarrow> Vector2 \<Rightarrow> Vector2 option" where
  "M7_ToWorld camera point = do {
     kx \<leftarrow> fdiv (zoom camera) (aspect camera);
     let sx = (real_of_int (tex_width (rt_texture (target camera)) sdiv 2) - v2_x point) * kx;
     ky \<leftarrow> fdiv (zoom camera) (fov camera);
     let sy = (offset camera * real_of_int (tex_height (rt_texture (target camera))) - v2_y point) * ky;
     let rotX = sx * m0 (rotMat camera) + sy * m1 (rotMat camera);
     let rotY = sx * m2 (rotMat camera) + sy * m3 (rotMat camera);
     wx \<leftarrow> fdiv rotX (v2_y point);
     wy \<leftarrow> fdiv rotY (v2_y point);
     Some \<lparr>v2_x = wx + v2_x (position camera), v2_y = wy + v2_y (position camera)\<rparr>
   }"

section \<open>The element buffer\<close>

text \<open>
  \<open>malloc\<close> is taken to succeed (the source does not test its result): it returns an
  array of the requested length whose slots are all unwritten.
\<close>

definition M7_ZBuffer_Load :: "32 word \<Rightarrow> M7_ZBuffer" where
  "M7_ZBuffer_Load maxElements =
     (let buf = \<lparr>ptrElems = [], elems = [], maxCount = 0, count = 0\<rparr>;
          buf = (if maxElements > 0
                    then buf\<lparr>elems := replicate (unat maxElements) None,
                                ptrElems := replicate (unat maxElements) None\<rparr>
                    else buf\<lparr>elems := [], ptrElems := []\<rparr>)
      in buf\<lparr>maxCount := maxElements, count := 0\<rparr>)"

definition M7_ZBuffer_Unload :: "M7_ZBuffer \<Rightarrow> M7_ZBuffer" where
  "M7_ZBuffer_Unload buf =
     (let buf = (if ptrElems buf \<noteq> [] then buf\<lparr>ptrElems := []\<rparr> else buf);
          buf = (if elems buf \<noteq> [] then buf\<lparr>elems := []\<rparr> else buf)
      in buf\<lparr>maxCount := 0, count := 0\<rparr>)"

text \<open>
  The result of an add is the pointer it returns (\<open>None\<close> is \<open>NULL\<close>, \<open>Some i\<close> is
  \<open>&buffer->elems[i]\<close>) and the buffer after the call. The two writes are at index
  \<open>count\<close>; they are inside the arrays whenever the buffer has the shape \<open>buffer_inv\<close>
  below, which every reachable buffer has (\<open>count < maxCount\<close>, the length of both arrays).
\<close>

definition M7_ZBuffer_Element_Add ::
  "M7_ZBuffer \<Rightarrow> M7_ZBuffer_Element \<Rightarrow> nat option \<times> M7_ZBuffer" where
  "M7_ZBuffer_Element_Add buf elem =
     (if count buf = maxCount buf then (None, buf)
      else
        (let ptr = unat (count buf);
             buf = buf\<lparr>elems := (elems buf)[ptr := Some elem]\<rparr>;
             buf = buf\<lparr>ptrElems := (ptrElems buf)[unat (count buf) := Some ptr]\<rparr>
         in (Some (unat (count buf)), buf\<lparr>count := count buf + 1\<rparr>)))"

text \<open>
  The three public adds each build a local element with a designated initialiser (the fields
  it does not name are zero) and pass it to \<open>M7_ZBuffer_Element_Add\<close>. The local element
  is a definition of its own here.
\<close>

definition M7_Texture_elem ::
  "Texture2D \<Rightarrow> Rectangle \<Rightarrow> Vector2 \<Rightarrow> Vector2 \<Rightarrow> Color \<Rightarrow> M7_ZBuffer_Element" where
  "M7_Texture_elem tex source pos sc tnt =
     \<lparr>onWorld = \<lparr>rectangle = source, position_sd = pos, scale = sc\<rparr>,
      onScreen = SpaceData_zero,
      texture = tex,
      distance = 0,
      tint = tnt,
      type = M7_ZBT_TEXTURE\<rparr>"

definition M7_Texture_Add ::
  "M7_Camera \<Rightarrow> Texture2D \<Rightarrow> Rectangle \<Rightarrow> Vector2 \<Rightarrow> Vector2 \<Rightarrow> Color \<Rightarrow> nat option \<times> M7_Camera" where
  "M7_Texture_Add camera tex source pos sc tnt =
     (let (ptr, buffer') = M7_ZBuffer_Element_Add (buffer camera) (M7_Texture_elem tex source pos sc tnt)
      in (ptr, camera\<lparr>buffer := buffer'\<rparr>))"

definition M7_Rectangle_elem :: "Rectangle \<Rightarrow> Color \<Rightarrow> M7_ZBuffer_Element" where
  "M7_Rectangle_elem rect tnt =
     \<lparr>onWorld = \<lparr>rectangle = \<lparr>rec_x = rec_x rect, rec_y = rec_y rect, rec_width = 1, rec_height = 1\<rparr>,
                 position_sd = \<lparr>v2_x = rec_x rect, v2_y = rec_y rect\<rparr>,
                 scale = \<lparr>v2_x = rec_width rect, v2_y = rec_height rect\<rparr>\<rparr>,
      onScreen = SpaceData_zero,
      texture = Texture2D_zero,
      distance = 0,
      tint = tnt,
      type = M7_ZBT_RECTANGLE\<rparr>"

definition M7_Rectangle_Add :: "M7_Camera \<Rightarrow> Rectangle \<Rightarrow> Color \<Rightarrow> nat option \<times> M7_Camera" where
  "M7_Rectangle_Add camera rect tnt =
     (let (ptr, buffer') = M7_ZBuffer_Element_Add (buffer camera) (M7_Rectangle_elem rect tnt)
      in (ptr, camera\<lparr>buffer := buffer'\<rparr>))"

definition M7_Circle_elem :: "Vector2 \<Rightarrow> real \<Rightarrow> Color \<Rightarrow> M7_ZBuffer_Element" where
  "M7_Circle_elem pos radius tnt =
     \<lparr>onWorld = \<lparr>rectangle = \<lparr>rec_x = v2_x pos - radius, rec_y = v2_y pos - radius,
                              rec_width = 1, rec_height = 1\<rparr>,
                 position_sd = pos,
                 scale = \<lparr>v2_x = radius, v2_y = radius\<rparr>\<rparr>,
      onScreen = SpaceData_zero,
      texture = Texture2D_zero,
      distance = 0,
      tint = tnt,
      type = M7_ZBT_CIRCLE\<rparr>"

definition M7_Circle_Add :: "M7_Camera \<Rightarrow> Vector2 \<Rightarrow> real \<Rightarrow> Color \<Rightarrow> nat option \<times> M7_Camera" where
  "M7_Circle_Add camera pos radius tnt =
     (let (ptr, buffer') = M7_ZBuffer_Element_Add (buffer camera) (M7_Circle_elem pos radius tnt)
      in (ptr, camera\<lparr>buffer := buffer'\<rparr>))"

definition M7_ZBuffer_Element_Update :: "M7_ZBuffer_Element \<Rightarrow> M7_Camera \<Rightarrow> M7_ZBuffer_Element option" where
  "M7_ZBuffer_Element_Update elem camera = do {
     posAndSize \<leftarrow> M7_ToScreen camera (position_sd (onWorld elem));
     scaleX \<leftarrow> fdiv (v3_z posAndSize * v2_x (scale (onWorld elem))) (rec_width (rectangle (onWorld elem)));
     scaleY \<leftarrow> fdiv (v3_z posAndSize * v2_y (scale (onWorld elem))) (rec_height (rectangle (onWorld elem)));
     let elem = elem\<lparr>onScreen := (onScreen elem)\<lparr>scale := \<lparr>v2_x = scaleX, v2_y = scaleY\<rparr>\<rparr>\<rparr>;
     let elem = elem\<lparr>onScreen := (onScreen elem)\<lparr>rectangle :=
        \<lparr>rec_x = v3_x posAndSize - (rec_width (rectangle (onWorld elem)) * v2_x (scale (onScreen elem))) * 0.5,
         rec_y = v3_y posAndSize - rec_height (rectangle (onWorld elem)) * v2_y (scale (onScreen elem)),
         rec_width = rec_width (rectangle (onWorld elem)) * v2_x (scale (onScreen elem)),
         rec_height = rec_width (rectangle (onWorld elem)) * v2_y (scale (onScreen elem))\<rparr>\<rparr>\<rparr>;
     let elem = elem\<lparr>onScreen := (onScreen elem)\<lparr>position_sd :=
        \<lparr>v2_x = v3_x posAndSize, v2_y = v3_y posAndSize\<rparr>\<rparr>\<rparr>;
     Some (elem\<lparr>distance := v3_z posAndSize\<rparr>)
   }"

definition M7_ZBuffer_Element_Draw :: "M7_ZBuffer_Element \<Rightarrow> gfx_call list" where
  "M7_ZBuffer_Element_Draw elem =
     (case type elem of
        M7_ZBT_TEXTURE \<Rightarrow>
          (if (v2_x (scale (onScreen elem)) > 0) = (v2_x (scale (onWorld elem)) > 0)
              \<and> (v2_y (scale (onScreen elem)) > 0) = (v2_y (scale (onWorld elem)) > 0)
           then [DrawTexturePro (texture elem) (rectangle (onWorld elem)) (rectangle (onScreen elem))
                   Vector2_zero 0 (tint elem)]
           else [])
      | M7_ZBT_RECTANGLE \<Rightarrow> [DrawRectangleRec (rectangle (onScreen elem)) (tint elem)]
      | M7_ZBT_CIRCLE \<Rightarrow>
          (let pos = position_sd (onScreen elem);
               pos = pos\<lparr>v2_y := v2_y pos - rec_width (rectangle (onScreen elem))\<rparr>
           in [DrawCircleV pos (rec_width (rectangle (onScreen elem))) (tint elem)]))"

text \<open>
  Reading an array slot: \<open>None\<close> when the index is outside the allocation or the slot was
  never written (the C program would read an indeterminate value).
\<close>

definition load_slot :: "'a option list \<Rightarrow> nat \<Rightarrow> 'a option" where
  "load_slot arr i = (if i < length arr then arr ! i else None)"

text \<open>
  The comparator receives two slots of the pointer array and follows the pointers into
  \<open>elems\<close>, here the argument \<open>mem\<close>.
\<close>

definition M7_ZBuffer_Compare :: "M7_ZBuffer_Element option list \<Rightarrow> nat option \<Rightarrow> nat option \<Rightarrow> int" where
  "M7_ZBuffer_Compare mem a b =
     (let e1 = the (mem ! the a);
          e2 = the (mem ! the b)
      in (if distance e1 > distance e2 then 1 else 0) - (if distance e1 < distance e2 then 1 else 0))"

text \<open>
  \<open>qsort\<close> belongs to the C library, not to this repository. It is modelled by an insertion
  sort that places \<open>a\<close> before \<open>b\<close> when the comparator returns a value \<open>\<le> 0\<close> for
  \<open>(a, b)\<close>; which of two equal keys comes first is unspecified for the library function.
\<close>

fun qsort_insert :: "('a \<Rightarrow> 'a \<Rightarrow> int) \<Rightarrow> 'a \<Rightarrow> 'a list \<Rightarrow> 'a list" where
  "qsort_insert cmp a [] = [a]"
| "qsort_insert cmp a (b # bs) = (if cmp a b \<le> 0 then a # b # bs else b # qsort_insert cmp a bs)"

fun qsort :: "('a \<Rightarrow> 'a \<Rightarrow> int) \<Rightarrow> 'a list \<Rightarrow> 'a list" where
  "qsort cmp [] = []"
| "qsort cmp (a # as) = qsort_insert cmp a (qsort cmp as)"

text \<open>The element that a slot of the pointer array points to.\<close>

definition deref :: "M7_ZBuffer \<Rightarrow> nat option \<Rightarrow> M7_ZBuffer_Element" where
  "deref buf a = the (elems buf ! the a)"

definition valid_ptr :: "M7_ZBuffer_Element option list \<Rightarrow> nat option \<Rightarrow> bool" where
  "valid_ptr mem a = (case a of None \<Rightarrow> False | Some p \<Rightarrow> load_slot mem p \<noteq> None)"

text \<open>
  The sort permutes the first \<open>count\<close> slots of the pointer array. It is \<open>None\<close> when
  the comparator would follow an unwritten or dangling pointer.
\<close>

definition M7_ZBuffer_Sort :: "M7_ZBuffer \<Rightarrow> M7_ZBuffer option" where
  "M7_ZBuffer_Sort buf =
     (let n = unat (count buf) in
      if n \<le> length (ptrElems buf) \<and> list_all (valid_ptr (elems buf)) (take n (ptrElems buf))
      then Some (buf\<lparr>ptrElems := qsort (M7_ZBuffer_Compare (elems buf)) (take n (ptrElems buf))
                                      @ drop n (ptrElems buf)\<rparr>)
      else None)"

fun M7_ZBuffer_Update_loop :: "M7_Camera \<Rightarrow> nat list \<Rightarrow> M7_Camera option" where
  "M7_ZBuffer_Update_loop camera [] = Some camera"
| "M7_ZBuffer_Update_loop camera (i # is) = do {
     ptr \<leftarrow> load_slot (ptrElems (buffer camera)) i;
     elem \<leftarrow> load_slot (elems (buffer camera)) ptr;
     elem' \<leftarrow> M7_ZBuffer_Element_Update elem camera;
     M7_ZBuffer_Update_loop
       (camera\<lparr>buffer := (buffer camera)\<lparr>elems := (elems (buffer camera))[ptr := Some elem']\<rparr>\<rparr>) is
   }"

definition M7_ZBuffer_Update :: "M7_Camera \<Rightarrow> M7_Camera option" where
  "M7_ZBuffer_Update camera = M7_ZBuffer_Update_loop camera [0 ..< unat (count (buffer camera))]"

fun M7_ZBuffer_Draw_loop :: "M7_ZBuffer \<Rightarrow> nat list \<Rightarrow> gfx_call list option" where
  "M7_ZBuffer_Draw_loop buf [] = Some []"
| "M7_ZBuffer_Draw_loop buf (i # is) = do {
     ptr \<leftarrow> load_slot (ptrElems buf) i;
     elem \<leftarrow> load_slot (elems buf) ptr;
     rest \<leftarrow> M7_ZBuffer_Draw_loop buf is;
     Some (M7_ZBuffer_Element_Draw elem @ rest)
   }"

definition M7_ZBuffer_Draw :: "M7_ZBuffer \<Rightarrow> gfx_call list option" where
  "M7_ZBuffer_Draw buf = M7_ZBuffer_Draw_loop buf [0 ..< unat (count buf)]"

section \<open>Camera lifecycle\<close>

text \<open>
  What raylib returns to \<open>M7_Camera_Load\<close>: the shader of \<open>LoadShaderFromMemory\<close>, the
  uniform locations of \<open>GetShaderLocation\<close> by uniform name, and the identifiers of the
  render texture. \<open>LoadRenderTexture\<close> follows raylib: the texture of the target it returns
  has the requested width and height.
\<close>

record M7_Env =
  LoadShaderFromMemory :: Shader
  GetShaderLocation :: "string \<Rightarrow> int"
  env_target_id :: "32 word"
  env_texture_id :: "32 word"

definition LoadRenderTexture :: "M7_Env \<Rightarrow> int \<Rightarrow> int \<Rightarrow> RenderTexture" where
  "LoadRenderTexture env w h =
     \<lparr>rt_id = env_target_id env,
      rt_texture = \<lparr>tex_id = env_texture_id env, tex_width = w, tex_height = h\<rparr>\<rparr>"

definition M7_Camera_zero :: M7_Camera where
  "M7_Camera_zero =
     \<lparr>planeProgram = \<lparr>shader = \<lparr>shader_id = 0\<rparr>, locMapTex = 0, locMapSize = 0, locCamPos = 0,
                       locCamRot = 0, locZoom = 0, locFOV = 0, locOffset = 0, locWrap = 0\<rparr>,
      target = \<lparr>rt_id = 0, rt_texture = Texture2D_zero\<rparr>,
      buffer = \<lparr>ptrElems = [], elems = [], maxCount = 0, count = 0\<rparr>,
      rotMat = \<lparr>m0 = 0, m1 = 0, m2 = 0, m3 = 0\<rparr>,
      position = Vector2_zero,
      rotation = 0, zoom = 0, fov = 0, offset = 0, aspect = 0\<rparr>"

definition M7_Camera_Load ::
  "M7_Env \<Rightarrow> int \<Rightarrow> int \<Rightarrow> Vector2 \<Rightarrow> real \<Rightarrow> real \<Rightarrow> real \<Rightarrow> real \<Rightarrow> 32 word
     \<Rightarrow> (M7_Camera \<times> gfx_call list) option" where
  "M7_Camera_Load env screenWidth screenHeight pos rot z f off maxSprites = do {
     let camera = M7_Camera_zero;
     asp \<leftarrow> (if screenWidth > screenHeight
              then fdiv (real_of_int screenWidth) (real_of_int screenHeight)
              else fdiv (real_of_int screenHeight) (real_of_int screenWidth));
     let camera = camera\<lparr>aspect := asp\<rparr>;
     let sh = LoadShaderFromMemory env;
     let camera = camera\<lparr>planeProgram :=
        \<lparr>shader = sh,
         locMapTex = GetShaderLocation env ''map'',
         locMapSize = GetShaderLocation env ''mapSize'',
         locCamPos = GetShaderLocation env ''camPos'',
         locCamRot = GetShaderLocation env ''camRot'',
         locZoom = GetShaderLocation env ''zoom'',
         locFOV = GetShaderLocation env ''fov'',
         locOffset = GetShaderLocation env ''offset'',
         locWrap = GetShaderLocation env ''wrap''\<rparr>\<rparr>;
     let camera = camera\<lparr>target := LoadRenderTexture env screenWidth screenHeight\<rparr>;
     let camera = camera\<lparr>buffer := M7_ZBuffer_Load maxSprites\<rparr>;
     let (camera, g1) = M7_Camera_SetPosition camera pos;
     let (camera, g2) = M7_Camera_SetRotation camera rot;
     let (camera, g3) = M7_Camera_SetOffset camera off;
     let (camera, g4) = M7_Camera_SetZoom camera z;
     let (camera, g5) = M7_Camera_SetFOV camera f;
     Some (camera, g1 @ g2 @ g3 @ g4 @ g5)
   }"

definition M7_Camera_Unload :: "M7_Camera \<Rightarrow> M7_Camera \<times> gfx_call list" where
  "M7_Camera_Unload camera =
     (let g = [UnloadShader (shader (planeProgram camera)), UnloadRenderTexture (target camera)];
          camera = camera\<lparr>buffer := M7_ZBuffer_Unload (buffer camera)\<rparr>;
          camera = camera\<lparr>target := (target camera)\<lparr>rt_id := 0,
                               rt_texture := (rt_texture (target camera))\<lparr>tex_id := 0\<rparr>\<rparr>\<rparr>;
          camera = camera\<lparr>planeProgram := (planeProgram camera)\<lparr>shader :=
                               (shader (planeProgram camera))\<lparr>shader_id := 0\<rparr>\<rparr>\<rparr>
      in (camera, g))"

definition M7_Camera_Begin :: "M7_Camera \<Rightarrow> Color \<Rightarrow> gfx_call list" where
  "M7_Camera_Begin camera backgroundColor =
     [BeginTextureMode (target camera), ClearBackground backgroundColor]"

definition M7_Camera_End :: "M7_Camera \<Rightarrow> (M7_Camera \<times> gfx_call list) option" where
  "M7_Camera_End camera = do {
     camera \<leftarrow> M7_ZBuffer_Update camera;
     sorted_buffer \<leftarrow> M7_ZBuffer_Sort (buffer camera);
     let camera = camera\<lparr>buffer := sorted_buffer\<rparr>;
     g \<leftarrow> M7_ZBuffer_Draw (buffer camera);
     Some (camera, g @ [EndTextureMode])
   }"

definition M7_Camera_DrawPlane ::
  "M7_Camera \<Rightarrow> Texture2D \<Rightarrow> Vector2 \<Rightarrow> Vector2 \<Rightarrow> Vector2 \<Rightarrow> int \<Rightarrow> gfx_call list" where
  "M7_Camera_DrawPlane camera tex pos origin sc wrap =
     (let mapSize = UNIFORM_VEC2 (real_of_int (tex_width tex) * v2_x sc)
                                 (real_of_int (tex_height tex) * v2_y sc);
          camPos = UNIFORM_VEC2 (v2_x (position camera) + v2_x pos + v2_x origin)
                                (v2_y (position camera) + v2_y pos + v2_y origin)
      in [SetShaderValue (shader (planeProgram camera)) (locMapSize (planeProgram camera)) mapSize,
          SetShaderValue (shader (planeProgram camera)) (locCamPos (planeProgram camera)) camPos,
          SetShaderValue (shader (planeProgram camera)) (locWrap (planeProgram camera)) (UNIFORM_INT wrap),
          BeginShaderMode (shader (planeProgram camera)),
          SetShaderValueTexture (shader (planeProgram camera)) (locMapTex (planeProgram camera)) tex,
          DrawTexture (rt_texture (target camera)) 0 0 WHITE,
          EndShaderMode])"

definition M7_Camera_Update ::
  "M7_Camera \<Rightarrow> Texture2D \<Rightarrow> Vector2 \<Rightarrow> Vector2 \<Rightarrow> int \<Rightarrow> Color \<Rightarrow> (M7_Camera \<times> gfx_call list) option" where
  "M7_Camera_Update camera tex pos sc wrap backgroundColor = do {
     let g1 = M7_Camera_Begin camera backgroundColor;
     let g2 = M7_Camera_DrawPlane camera tex pos
                \<lparr>v2_x = (real_of_int (tex_width tex) * v2_x sc) * 0.5,
                 v2_y = (real_of_int (tex_height tex) * v2_y sc) * 0.5\<rparr> sc wrap;
     (camera, g3) \<leftarrow> M7_Camera_End camera;
     Some (camera, g1 @ g2 @ g3)
   }"

definition M7_Camera_Render :: "M7_Camera \<Rightarrow> gfx_call list" where
  "M7_Camera_Render camera =
     [DrawTexturePro (rt_texture (target camera))
        \<lparr>rec_x = 0, rec_y = 0,
         rec_width = real_of_int (tex_width (rt_texture (target camera))),
         rec_height = real_of_int (- tex_height (rt_texture (target camera)))\<rparr>
        \<lparr>rec_x = 0, rec_y = 0,
         rec_width = real_of_int (tex_width (rt_texture (target camera))),
         rec_height = real_of_int (tex_height (rt_texture (target camera)))\<rparr>
        Vector2_zero 0 WHITE]"

text \<open>
  What \<open>M7_Camera_Move\<close> reads from the host: the frame time, the keys and the mouse wheel.
  The function divides by \<open>mag\<close> only when \<open>dx\<close> or \<open>dy\<close> is 1 or -1, so
  \<open>mag\<close> is at least 1 there and the division is the real one.
\<close>

record M7_Input =
  GetFrameTime :: real
  KEY_A :: bool
  KEY_D :: bool
  KEY_W :: bool
  KEY_S :: bool
  KEY_RIGHT :: bool
  KEY_LEFT :: bool
  KEY_DOWN :: bool
  KEY_UP :: bool
  KEY_PAGE_DOWN :: bool
  KEY_PAGE_UP :: bool
  GetMouseWheelMove :: real

definition M7_Camera_Move :: "M7_Input \<Rightarrow> M7_Camera \<Rightarrow> real \<Rightarrow> M7_Camera \<times> gfx_call list" where
  "M7_Camera_Move inp camera speed =
     (let dt = GetFrameTime inp;
          speed = speed * dt;
          dx = real_of_int (of_bool (KEY_A inp) - of_bool (KEY_D inp));
          dy = real_of_int (of_bool (KEY_W inp) - of_bool (KEY_S inp));
          (dx, dy) = (if dx \<noteq> 0 \<or> dy \<noteq> 0
                      then (let mag = sqrt (dx * dx + dy * dy) in (dx / mag, dy / mag))
                      else (dx, dy));
          (camera, g1) = M7_Camera_Translate camera (dx * speed) (dy * speed);
          (camera, g2) = M7_Camera_Rotate camera
                           (real_of_int (of_bool (KEY_RIGHT inp) - of_bool (KEY_LEFT inp)) * dt);
          (camera, g3) = M7_Camera_SetFOV camera (fov camera + - GetMouseWheelMove inp * 0.1);
          (camera, g4) = M7_Camera_SetZoom camera
                           (zoom camera + real_of_int (of_bool (KEY_DOWN inp) - of_bool (KEY_UP inp)) * speed);
          (camera, g5) = M7_Camera_SetOffset camera
                           (offset camera + real_of_int (of_bool (KEY_PAGE_DOWN inp) - of_bool (KEY_PAGE_UP inp)) * dt)
      in (camera, g1 @ g2 @ g3 @ g4 @ g5))"

section \<open>Reachable camera states\<close>

text \<open>
  The operations a caller has on a loaded camera: the functions declared in the header, and
  a write through a pointer that an add returned (\<open>main.c\<close> moves its first character so).
\<close>

datatype M7_Op =
    Op_SetPosition Vector2
  | Op_SetRotation real
  | Op_SetZoom real
  | Op_SetFOV real
  | Op_SetOffset real
  | Op_Translate real real
  | Op_Rotate real
  | Op_Move M7_Input real
  | Op_Texture_Add Texture2D Rectangle Vector2 Vector2 Color
  | Op_Rectangle_Add Rectangle Color
  | Op_Circle_Add Vector2 real Color
  | Op_Element_Write nat M7_ZBuffer_Element
  | Op_Begin Color
  | Op_DrawPlane Texture2D Vector2 Vector2 Vector2 int
  | Op_End
  | Op_Update Texture2D Vector2 Vector2 int Color
  | Op_Render
  | Op_Unload

text \<open>
  One call: the camera after it and the graphics calls it issued, or \<open>None\<close> when the call
  leaves the model (a division by zero, a read of an unwritten slot, a write through a pointer
  that no add returned).
\<close>

fun M7_exec :: "M7_Op \<Rightarrow> M7_Camera \<Rightarrow> (M7_Camera \<times> gfx_call list) option" where
  "M7_exec (Op_SetPosition p) camera = Some (M7_Camera_SetPosition camera p)"
| "M7_exec (Op_SetRotation r) camera = Some (M7_Camera_SetRotation camera r)"
| "M7_exec (Op_SetZoom z) camera = Some (M7_Camera_SetZoom camera z)"
| "M7_exec (Op_SetFOV f) camera = Some (M7_Camera_SetFOV camera f)"
| "M7_exec (Op_SetOffset off) camera = Some (M7_Camera_SetOffset camera off)"
| "M7_exec (Op_Translate dx dy) camera = Some (M7_Camera_Translate camera dx dy)"
| "M7_exec (Op_Rotate delta) camera = Some (M7_Camera_Rotate camera delta)"
| "M7_exec (Op_Move inp speed) camera = Some (M7_Camera_Move inp camera speed)"
| "M7_exec (Op_Texture_Add tex source pos sc tnt) camera =
     Some (snd (M7_Texture_Add camera tex source pos sc tnt), [])"
| "M7_exec (Op_Rectangle_Add rect tnt) camera = Some (snd (M7_Rectangle_Add camera rect tnt), [])"
| "M7_exec (Op_Circle_Add pos radius tnt) camera = Some (snd (M7_Circle_Add camera pos radius tnt), [])"
| "M7_exec (Op_Element_Write ptr elem) camera =
     (if ptr < unat (count (buffer camera)) \<and> ptr < length (elems (buffer camera))
      then Some (camera\<lparr>buffer := (buffer camera)\<lparr>elems := (elems (buffer camera))[ptr := Some elem]\<rparr>\<rparr>, [])
      else None)"
| "M7_exec (Op_Begin backgroundColor) camera = Some (camera, M7_Camera_Begin camera backgroundColor)"
| "M7_exec (Op_DrawPlane tex pos origin sc wrap) camera =
     Some (camera, M7_Camera_DrawPlane camera tex pos origin sc wrap)"
| "M7_exec Op_End camera = M7_Camera_End camera"
| "M7_exec (Op_Update tex pos sc wrap backgroundColor) camera =
     M7_Camera_Update camera tex pos sc wrap backgroundColor"
| "M7_exec Op_Render camera = Some (camera, M7_Camera_Render camera)"
| "M7_exec Op_Unload camera = Some (M7_Camera_Unload camera)"

definition M7_step :: "M7_Op \<Rightarrow> M7_Camera \<Rightarrow> M7_Camera option" where
  "M7_step op camera = map_option fst (M7_exec op camera)"

text \<open>A sequence of calls, one after the other: the final camera and all graphics calls in order.\<close>

fun M7_run :: "M7_Op list \<Rightarrow> M7_Camera \<Rightarrow> (M7_Camera \<times> gfx_call list) option" where
  "M7_run [] camera = Some (camera, [])"
| "M7_run (op # ops) camera = do {
     (camera', g) \<leftarrow> M7_exec op camera;
     (camera'', gs) \<leftarrow> M7_run ops camera';
     Some (camera'', g @ gs)
   }"

inductive reachable :: "M7_Camera \<Rightarrow> bool" where
  reachable_Load:
    "M7_Camera_Load env screenWidth screenHeight pos rot z f off maxSprites = Some (camera, g)
     \<Longrightarrow> reachable camera"
| reachable_step:
    "reachable camera \<Longrightarrow> M7_step op camera = Some camera' \<Longrightarrow> reachable camera'"

section \<open>Sequences of adds\<close>

datatype M7_Add =
    Add_Texture Texture2D Rectangle Vector2 Vector2 Color
  | Add_Rectangle Rectangle Color
  | Add_Circle Vector2 real Color

fun M7_Add_call :: "M7_Camera \<Rightarrow> M7_Add \<Rightarrow> nat option \<times> M7_Camera" where
  "M7_Add_call camera (Add_Texture tex source pos sc tnt) = M7_Texture_Add camera tex source pos sc tnt"
| "M7_Add_call camera (Add_Rectangle rect tnt) = M7_Rectangle_Add camera rect tnt"
| "M7_Add_call camera (Add_Circle pos radius tnt) = M7_Circle_Add camera pos radius tnt"

fun M7_Add_elem :: "M7_Add \<Rightarrow> M7_ZBuffer_Element" where
  "M7_Add_elem (Add_Texture tex source pos sc tnt) = M7_Texture_elem tex source pos sc tnt"
| "M7_Add_elem (Add_Rectangle rect tnt) = M7_Rectangle_elem rect tnt"
| "M7_Add_elem (Add_Circle pos radius tnt) = M7_Circle_elem pos radius tnt"

text \<open>The pointers returned by a sequence of adds, in call order, and the camera after them.\<close>

fun M7_Add_calls :: "M7_Camera \<Rightarrow> M7_Add list \<Rightarrow> nat option list \<times> M7_Camera" where
  "M7_Add_calls camera [] = ([], camera)"
| "M7_Add_calls camera (r # rs) =
     (let (ptr, camera') = M7_Add_call camera r;
          (ptrs, camera'') = M7_Add_calls camera' rs
      in (ptr # ptrs, camera''))"

section \<open>Concrete inputs\<close>

definition env0 :: M7_Env where
  "env0 = \<lparr>LoadShaderFromMemory = \<lparr>shader_id = 3\<rparr>,
           GetShaderLocation = (\<lambda>name. int (length name)),
           env_target_id = 1,
           env_texture_id = 2\<rparr>"

definition camera0 :: M7_Camera where
  "camera0 =
     \<lparr>planeProgram = \<lparr>shader = \<lparr>shader_id = 3\<rparr>, locMapTex = 3, locMapSize = 7, locCamPos = 6,
                       locCamRot = 6, locZoom = 4, locFOV = 3, locOffset = 6, locWrap = 4\<rparr>,
      target = \<lparr>rt_id = 1, rt_texture = \<lparr>tex_id = 2, tex_width = 1280, tex_height = 720\<rparr>\<rparr>,
      buffer = \<lparr>ptrElems = [None, None], elems = [None, None], maxCount = 2, count = 0\<rparr>,
      rotMat = \<lparr>m0 = 1, m1 = 0, m2 = 0, m3 = 1\<rparr>,
      position = \<lparr>v2_x = 0, v2_y = 0\<rparr>,
      rotation = 0, zoom = 80, fov = 1 / 2, offset = 1 / 2, aspect = 16 / 9\<rparr>"

definition camera_portrait :: M7_Camera where
  "camera_portrait =
     camera0\<lparr>target := \<lparr>rt_id = 1, rt_texture = \<lparr>tex_id = 2, tex_width = 720, tex_height = 1280\<rparr>\<rparr>\<rparr>"

definition sprite_tall :: M7_ZBuffer_Element where
  "sprite_tall =
     M7_Texture_elem \<lparr>tex_id = 7, tex_width = 16, tex_height = 32\<rparr>
       \<lparr>rec_x = 0, rec_y = 0, rec_width = 16, rec_height = 32\<rparr>
       \<lparr>v2_x = 0, v2_y = 0\<rparr> \<lparr>v2_x = 8, v2_y = 8\<rparr> WHITE"

definition sprite_mirrored :: M7_ZBuffer_Element where
  "sprite_mirrored =
     M7_Texture_elem \<lparr>tex_id = 7, tex_width = 16, tex_height = 16\<rparr>
       \<lparr>rec_x = 0, rec_y = 0, rec_width = 16, rec_height = 16\<rparr>
       \<lparr>v2_x = 0, v2_y = 0\<rparr> \<lparr>v2_x = - 8, v2_y = - 8\<rparr> WHITE"

definition buffer3 :: M7_ZBuffer where
  "buffer3 =
     \<lparr>ptrElems = [Some 0, Some 1, Some 2],
      elems = [Some (sprite_tall\<lparr>distance := 5\<rparr>),
               Some (sprite_mirrored\<lparr>distance := 3\<rparr>),
               Some (M7_Rectangle_elem \<lparr>rec_x = 64, rec_y = 64, rec_width = 16, rec_height = 16\<rparr> WHITE
                      \<lparr>distance := 4\<rparr>)],
      maxCount = 3, count = 3\<rparr>"

definition adds2 :: "M7_Add list" where
  "adds2 = [Add_Texture \<lparr>tex_id = 7, tex_width = 16, tex_height = 16\<rparr>
              \<lparr>rec_x = 0, rec_y = 0, rec_width = 16, rec_height = 16\<rparr>
              \<lparr>v2_x = 0, v2_y = 0\<rparr> \<lparr>v2_x = 8, v2_y = 8\<rparr> WHITE,
            Add_Circle \<lparr>v2_x = - 64, v2_y = 64\<rparr> 8 WHITE]"

definition add3 :: M7_Add where
  "add3 = Add_Rectangle \<lparr>rec_x = 64, rec_y = 64, rec_width = 16, rec_height = 16\<rparr> WHITE"

section \<open>Invariants\<close>

text \<open>The shape of the buffer that every operation keeps.\<close>

definition buffer_inv :: "M7_ZBuffer \<Rightarrow> bool" where
  "buffer_inv buf \<longleftrightarrow>
     count buf \<le> maxCount buf
     \<and> length (elems buf) = unat (maxCount buf)
     \<and> length (ptrElems buf) = unat (maxCount buf)
     \<and> list_all (valid_ptr (elems buf)) (take (unat (count buf)) (ptrElems buf))"

text \<open>Two states of the backing array with the same slots written.\<close>

definition same_written :: "'a option list \<Rightarrow> 'a option list \<Rightarrow> bool" where
  "same_written es es' \<longleftrightarrow>
     length es' = length es \<and> (\<forall>p < length es. (es' ! p = None) = (es ! p = None))"

section \<open>Verified properties\<close>

subsection \<open>Auxiliary facts\<close>

lemmas setter_defs = M7_Camera_SetPosition_def M7_Camera_SetRotation_def M7_Camera_SetZoom_def
  M7_Camera_SetFOV_def M7_Camera_SetOffset_def M7_Camera_Translate_def M7_Camera_Rotate_def

lemma length_qsort_insert: "length (qsort_insert cmp a bs) = Suc (length bs)"
  by (induction bs) simp_all

lemma length_qsort: "length (qsort cmp as) = length as"
  by (induction as) (simp_all add: length_qsort_insert)

lemma mset_qsort_insert: "mset (qsort_insert cmp a bs) = add_mset a (mset bs)"
  by (induction bs) simp_all

lemma mset_qsort: "mset (qsort cmp as) = mset as"
  by (induction as) (simp_all add: mset_qsort_insert)

lemma same_written_refl: "same_written es es"
  by (simp add: same_written_def)

lemma same_written_trans: "same_written es es' \<Longrightarrow> same_written es' es'' \<Longrightarrow> same_written es es''"
  by (simp add: same_written_def)

lemma same_written_update:
  "load_slot es p = Some e \<Longrightarrow> same_written es (es[p := Some e'])"
  by (auto simp: same_written_def load_slot_def nth_list_update split: if_splits)

lemma valid_ptr_same_written: "same_written es es' \<Longrightarrow> valid_ptr es' a = valid_ptr es a"
  by (auto simp: valid_ptr_def same_written_def load_slot_def split: option.splits)

lemma valid_ptr_update: "valid_ptr es a \<Longrightarrow> valid_ptr (es[p := Some e]) a"
proof (cases a)
  case None
  then show "valid_ptr es a \<Longrightarrow> ?thesis" by (simp add: valid_ptr_def)
next
  case (Some q)
  assume "valid_ptr es a"
  then have q: "q < length es" "es ! q \<noteq> None"
    by (auto simp: Some valid_ptr_def load_slot_def split: if_splits)
  show ?thesis
  proof (cases "q = p")
    case True
    then show ?thesis using q by (simp add: \<open>a = Some q\<close> valid_ptr_def load_slot_def)
  next
    case False
    then show ?thesis using q by (simp add: \<open>a = Some q\<close> valid_ptr_def load_slot_def)
  qed
qed

lemma Update_loop_frame:
  "M7_ZBuffer_Update_loop c is = Some c' \<Longrightarrow>
   \<exists>es. c' = c\<lparr>buffer := (buffer c)\<lparr>elems := es\<rparr>\<rparr> \<and> same_written (elems (buffer c)) es"
proof (induction "is" arbitrary: c)
  case Nil
  then have "c' = c" by simp
  then show ?case by (intro exI[of _ "elems (buffer c)"]) (simp add: same_written_refl)
next
  case (Cons i "is")
  from Cons.prems obtain p e e' where
    slot: "load_slot (elems (buffer c)) p = Some e"
    and rec: "M7_ZBuffer_Update_loop (c\<lparr>buffer := (buffer c)\<lparr>elems := (elems (buffer c))[p := Some e']\<rparr>\<rparr>) is = Some c'"
    by (auto split: Option.bind_splits)
  from Cons.IH[OF rec] obtain es where
    "c' = c\<lparr>buffer := (buffer c)\<lparr>elems := es\<rparr>\<rparr>" "same_written ((elems (buffer c))[p := Some e']) es"
    by auto
  then show ?case using same_written_trans[OF same_written_update[OF slot]] by blast
qed

lemma Sort_frame:
  "M7_ZBuffer_Sort b = Some b' \<Longrightarrow>
   \<exists>ps. b' = b\<lparr>ptrElems := ps\<rparr> \<and> length ps = length (ptrElems b)
        \<and> mset (take (unat (count b)) ps) = mset (take (unat (count b)) (ptrElems b))"
  by (auto simp: M7_ZBuffer_Sort_def Let_def length_qsort mset_qsort split: if_splits)

lemma End_frame:
  assumes "M7_Camera_End c = Some (c', g)"
  shows "\<exists>es ps. c' = c\<lparr>buffer := (buffer c)\<lparr>elems := es, ptrElems := ps\<rparr>\<rparr>
           \<and> same_written (elems (buffer c)) es \<and> length ps = length (ptrElems (buffer c))
           \<and> mset (take (unat (count (buffer c))) ps) = mset (take (unat (count (buffer c))) (ptrElems (buffer c)))"
proof -
  from assms obtain c1 b1 where u: "M7_ZBuffer_Update c = Some c1"
    and s: "M7_ZBuffer_Sort (buffer c1) = Some b1" and c': "c' = c1\<lparr>buffer := b1\<rparr>"
    by (auto simp: M7_Camera_End_def Let_def split: Option.bind_splits)
  from u obtain es where c1: "c1 = c\<lparr>buffer := (buffer c)\<lparr>elems := es\<rparr>\<rparr>"
    and les: "same_written (elems (buffer c)) es"
    unfolding M7_ZBuffer_Update_def by (blast dest: Update_loop_frame)
  from Sort_frame[OF s] obtain ps where b1: "b1 = (buffer c1)\<lparr>ptrElems := ps\<rparr>"
    and lps: "length ps = length (ptrElems (buffer c1))"
    and mps: "mset (take (unat (count (buffer c1))) ps) = mset (take (unat (count (buffer c1))) (ptrElems (buffer c1)))"
    by blast
  have "c' = c\<lparr>buffer := (buffer c)\<lparr>elems := es, ptrElems := ps\<rparr>\<rparr>"
    by (simp add: c' b1 c1)
  moreover have "length ps = length (ptrElems (buffer c))" using lps by (simp add: c1)
  moreover have "mset (take (unat (count (buffer c))) ps) = mset (take (unat (count (buffer c))) (ptrElems (buffer c)))"
    using mps by (simp add: c1)
  ultimately show ?thesis using les by blast
qed

lemma Update_frame:
  assumes "M7_Camera_Update c tex pos sc wrap bg = Some (c', g)"
  shows "\<exists>es ps. c' = c\<lparr>buffer := (buffer c)\<lparr>elems := es, ptrElems := ps\<rparr>\<rparr>
           \<and> same_written (elems (buffer c)) es \<and> length ps = length (ptrElems (buffer c))
           \<and> mset (take (unat (count (buffer c))) ps) = mset (take (unat (count (buffer c))) (ptrElems (buffer c)))"
proof -
  from assms obtain g3 where "M7_Camera_End c = Some (c', g3)"
    by (auto simp: M7_Camera_Update_def Let_def split: Option.bind_splits)
  then show ?thesis by (rule End_frame)
qed

lemma buffer_inv_frame:
  assumes "buffer_inv buf" and "same_written (elems buf) es" and "length ps = length (ptrElems buf)"
    and "mset (take (unat (count buf)) ps) = mset (take (unat (count buf)) (ptrElems buf))"
  shows "buffer_inv (buf\<lparr>elems := es, ptrElems := ps\<rparr>)"
proof -
  have "set (take (unat (count buf)) ps) = set (take (unat (count buf)) (ptrElems buf))"
    using assms(4) by (rule mset_eq_setD)
  then have "list_all (valid_ptr es) (take (unat (count buf)) ps)"
    using assms(1) by (simp add: buffer_inv_def list_all_iff valid_ptr_same_written[OF assms(2)])
  then show ?thesis
    using assms(1,2,3) by (simp add: buffer_inv_def same_written_def)
qed

lemma Move_fields:
  "aspect (fst (M7_Camera_Move inp c speed)) = aspect c"
  "target (fst (M7_Camera_Move inp c speed)) = target c"
  "buffer (fst (M7_Camera_Move inp c speed)) = buffer c"
  "planeProgram (fst (M7_Camera_Move inp c speed)) = planeProgram c"
  by (simp_all add: M7_Camera_Move_def setter_defs Let_def split_beta split del: if_split cong: if_cong)

lemma Move_rotMat:
  "rotMat (fst (M7_Camera_Move inp c speed)) =
     \<lparr>m0 = cos (rotation (fst (M7_Camera_Move inp c speed))),
      m1 = - sin (rotation (fst (M7_Camera_Move inp c speed))),
      m2 = sin (rotation (fst (M7_Camera_Move inp c speed))),
      m3 = cos (rotation (fst (M7_Camera_Move inp c speed)))\<rparr>"
  by (simp add: M7_Camera_Move_def setter_defs Let_def split_beta split del: if_split cong: if_cong)

lemma word_inc_unat:
  fixes c m :: "32 word"
  assumes "c \<le> m" "c \<noteq> m"
  shows "c + 1 \<le> m" and "unat (c + 1) = Suc (unat c)"
proof -
  have lt: "c < m" using assms by simp
  then show "c + 1 \<le> m" by (rule inc_le)
  have "unat c < unat m" using lt by (simp add: word_less_nat_alt)
  moreover have "unat m < 2 ^ 32" using unsigned_less[of m, where 'a=nat] by simp
  ultimately have "unat c + unat (1::32 word) < 2 ^ LENGTH(32)" by simp
  then have "unat (c + 1) = unat c + unat (1::32 word)" by (simp only: unat_add_lem)
  then show "unat (c + 1) = Suc (unat c)" by simp
qed

lemma Element_Add_full:
  "count buf = maxCount buf \<Longrightarrow> M7_ZBuffer_Element_Add buf e = (None, buf)"
  by (simp add: M7_ZBuffer_Element_Add_def)

lemma Element_Add_ok:
  "count buf \<noteq> maxCount buf \<Longrightarrow>
   M7_ZBuffer_Element_Add buf e =
     (Some (unat (count buf)),
      buf\<lparr>elems := (elems buf)[unat (count buf) := Some e],
          ptrElems := (ptrElems buf)[unat (count buf) := Some (unat (count buf))],
          count := count buf + 1\<rparr>)"
  by (simp add: M7_ZBuffer_Element_Add_def Let_def)

lemma Element_Add_inv:
  assumes "buffer_inv buf"
  shows "buffer_inv (snd (M7_ZBuffer_Element_Add buf e))"
proof (cases "count buf = maxCount buf")
  case True
  then show ?thesis using assms by (simp add: Element_Add_full)
next
  case False
  define n where "n = unat (count buf)"
  have le: "count buf \<le> maxCount buf" using assms by (simp add: buffer_inv_def)
  have n_lt: "n < unat (maxCount buf)"
    using le False by (simp add: n_def word_le_nat_alt word_unat_eq_iff)
  have len: "length (elems buf) = unat (maxCount buf)" "length (ptrElems buf) = unat (maxCount buf)"
    using assms by (simp_all add: buffer_inv_def)
  have old: "list_all (valid_ptr (elems buf)) (take n (ptrElems buf))"
    using assms by (simp add: buffer_inv_def n_def)
  have keep: "valid_ptr ((elems buf)[n := Some e]) a" if "valid_ptr (elems buf) a" for a
    using that by (rule valid_ptr_update)
  have new: "valid_ptr ((elems buf)[n := Some e]) (Some n)"
    using n_lt len by (simp add: valid_ptr_def load_slot_def)
  have tk: "take (Suc n) ((ptrElems buf)[n := Some n]) = take n (ptrElems buf) @ [Some n]"
    using n_lt len by (simp add: take_Suc_conv_app_nth)
  have "list_all (valid_ptr ((elems buf)[n := Some e])) (take (Suc n) ((ptrElems buf)[n := Some n]))"
    using old keep new by (simp add: tk list_all_iff)
  then show ?thesis
    using False le len word_inc_unat[OF le False]
    by (simp add: Element_Add_ok buffer_inv_def n_def)
qed

lemma Add_call_eq:
  "M7_Add_call c r =
     (fst (M7_ZBuffer_Element_Add (buffer c) (M7_Add_elem r)),
      c\<lparr>buffer := snd (M7_ZBuffer_Element_Add (buffer c) (M7_Add_elem r))\<rparr>)"
  by (cases r) (simp_all add: M7_Texture_Add_def M7_Rectangle_Add_def M7_Circle_Add_def split_beta)

lemma ZBuffer_Load_inv: "buffer_inv (M7_ZBuffer_Load K)"
  by (simp add: M7_ZBuffer_Load_def buffer_inv_def Let_def word_gt_0 unat_eq_zero)

lemma ZBuffer_Unload_inv: "buffer_inv (M7_ZBuffer_Unload buf)"
  by (simp add: M7_ZBuffer_Unload_def buffer_inv_def Let_def)

lemma Load_fields:
  assumes "M7_Camera_Load env w h pos rot z f off K = Some (c, g)"
  shows "buffer c = M7_ZBuffer_Load K"
    and "target c = LoadRenderTexture env w h"
    and "position c = pos" and "rotation c = rot" and "zoom c = z" and "fov c = f" and "offset c = off"
    and "rotMat c = \<lparr>m0 = cos rot, m1 = - sin rot, m2 = sin rot, m3 = cos rot\<rparr>"
    and "fdiv (real_of_int (max w h)) (real_of_int (min w h)) = Some (aspect c)"
  using assms
  by (auto simp: M7_Camera_Load_def setter_defs Let_def max_def min_def split: Option.bind_splits if_splits)

lemmas add_defs = M7_Texture_Add_def M7_Rectangle_Add_def M7_Circle_Add_def

lemma exec_aspect:
  assumes "M7_exec op c = Some (c', g)"
  shows "aspect c' = aspect c"
    and "tex_width (rt_texture (target c')) = tex_width (rt_texture (target c))"
    and "tex_height (rt_texture (target c')) = tex_height (rt_texture (target c))"
  using assms
  by (cases op; (auto simp: setter_defs add_defs split_beta M7_Camera_Unload_def Let_def
        dest!: End_frame Update_frame split: if_splits)[1];
      metis Move_fields fst_conv)+

lemma exec_rotMat:
  assumes "M7_exec op c = Some (c', g)"
    and "rotMat c = \<lparr>m0 = cos (rotation c), m1 = - sin (rotation c), m2 = sin (rotation c), m3 = cos (rotation c)\<rparr>"
  shows "rotMat c' = \<lparr>m0 = cos (rotation c'), m1 = - sin (rotation c'), m2 = sin (rotation c'), m3 = cos (rotation c')\<rparr>"
proof (cases op)
  case (Op_Move inp speed)
  then have "c' = fst (M7_Camera_Move inp c speed)" using assms(1) by (metis M7_exec.simps(8) fst_conv option.inject)
  then show ?thesis by (simp only: Move_rotMat)
qed (use assms in \<open>auto simp: setter_defs add_defs split_beta M7_Camera_Unload_def Let_def
        dest!: End_frame Update_frame split: if_splits\<close>)

lemma exec_buffer_inv:
  assumes "M7_exec op c = Some (c', g)" and "buffer_inv (buffer c)"
  shows "buffer_inv (buffer c')"
proof (cases op)
  case (Op_Move inp speed)
  then have "c' = fst (M7_Camera_Move inp c speed)" using assms(1) by (metis M7_exec.simps(8) fst_conv option.inject)
  then show ?thesis using assms(2) by (simp only: Move_fields)
next
  case Op_End
  then show ?thesis using assms by (auto dest!: End_frame intro: buffer_inv_frame)
next
  case (Op_Update tex pos sc wrap bg)
  then show ?thesis using assms by (auto dest!: Update_frame intro: buffer_inv_frame)
next
  case Op_Unload
  then show ?thesis using assms by (auto simp: M7_Camera_Unload_def Let_def ZBuffer_Unload_inv)
next
  case (Op_Element_Write p e)
  then have c': "c' = c\<lparr>buffer := (buffer c)\<lparr>elems := (elems (buffer c))[p := Some e]\<rparr>\<rparr>"
    using assms(1) by (auto split: if_splits)
  have keep: "valid_ptr ((elems (buffer c))[p := Some e]) a" if "valid_ptr (elems (buffer c)) a" for a
    using that by (rule valid_ptr_update)
  show ?thesis using assms(2) keep by (auto simp: c' buffer_inv_def list_all_iff)
qed (use assms in \<open>auto simp: setter_defs add_defs split_beta Element_Add_inv Let_def\<close>)

lemma reachable_rotMat:
  "reachable c \<Longrightarrow>
   rotMat c = \<lparr>m0 = cos (rotation c), m1 = - sin (rotation c), m2 = sin (rotation c), m3 = cos (rotation c)\<rparr>"
proof (induction rule: reachable.induct)
  case (reachable_Load env w h pos rot z f off K c g)
  then show ?case by (simp add: Load_fields)
next
  case (reachable_step c op c')
  then obtain g where "M7_exec op c = Some (c', g)" by (auto simp: M7_step_def)
  then show ?case using reachable_step.IH by (rule exec_rotMat)
qed

lemma reachable_buffer_inv: "reachable c \<Longrightarrow> buffer_inv (buffer c)"
proof (induction rule: reachable.induct)
  case (reachable_Load env w h pos rot z f off K c g)
  then show ?case by (simp add: Load_fields ZBuffer_Load_inv)
next
  case (reachable_step c op c')
  then obtain g where "M7_exec op c = Some (c', g)" by (auto simp: M7_step_def)
  then show ?case using reachable_step.IH by (rule exec_buffer_inv)
qed

lemma reachable_aspect:
  "reachable c \<Longrightarrow>
   fdiv (real_of_int (max (tex_width (rt_texture (target c))) (tex_height (rt_texture (target c)))))
        (real_of_int (min (tex_width (rt_texture (target c))) (tex_height (rt_texture (target c)))))
   = Some (aspect c)"
proof (induction rule: reachable.induct)
  case (reachable_Load env w h pos rot z f off K c g)
  then show ?case by (simp add: Load_fields LoadRenderTexture_def)
next
  case (reachable_step c op c')
  then obtain g where "M7_exec op c = Some (c', g)" by (auto simp: M7_step_def)
  then show ?case using reachable_step.IH by (simp add: exec_aspect)
qed

lemma M7_ToScreen_eq:
  "M7_ToScreen camera point =
     (let depth = 1 - M7_spaceY camera point;
          width = real_of_int (tex_width (rt_texture (target camera)));
          half_width = real_of_int (tex_width (rt_texture (target camera)) sdiv 2);
          height = real_of_int (tex_height (rt_texture (target camera)))
      in if zoom camera = 0 \<or> depth = 0 then None
         else Some \<lparr>v3_x = (M7_spaceX camera point / depth) * offset camera * width + half_width,
                    v3_y = ((M7_spaceY camera point + offset camera - 1) / depth) * height + height,
                    v3_z = (offset camera * width) / (zoom camera * depth)\<rparr>)"
  by (simp add: M7_ToScreen_def fdiv_def M7_spaceX_def M7_spaceY_def Let_def)

lemma roundtrip_core:
  assumes rm: "rotMat c = \<lparr>m0 = 1, m1 = 0, m2 = 0, m3 = 1\<rparr>"
    and off: "offset c = 1/2" and z: "zoom c > 0" and f: "fov c > 0"
    and W: "tex_width (rt_texture (target c)) = W" and H: "tex_height (rt_texture (target c)) = H"
    and WH: "H \<le> W" "0 < H"
    and asp: "aspect c = real_of_int W / real_of_int H"
    and d: "0 < 1 - M7_spaceY c p"
  shows "\<exists>s. M7_ToScreen c p = Some s \<and> M7_ToWorld c \<lparr>v2_x = v3_x s, v2_y = v3_y s\<rparr> = Some p"
proof -
  define d where "d = 1 - M7_spaceY c p"
  have dpos: "0 < d" using d by (simp add: d_def)
  define sX where "sX = (M7_spaceX c p / d) * (1/2) * real_of_int W + real_of_int (W sdiv 2)"
  define sY where "sY = ((M7_spaceY c p + 1/2 - 1) / d) * real_of_int H + real_of_int H"
  define sZ where "sZ = ((1/2) * real_of_int W) / (zoom c * d)"
  have ts: "M7_ToScreen c p = Some \<lparr>v3_x = sX, v3_y = sY, v3_z = sZ\<rparr>"
    using z dpos by (simp add: M7_ToScreen_eq Let_def d_def[symmetric] off W H sX_def sY_def sZ_def)
  have sY_eq: "sY = real_of_int H / (2 * d)"
    using dpos by (simp add: sY_def d_def field_simps)
  have sY_pos: "0 < sY" using dpos WH by (simp add: sY_eq)
  have Wpos: "0 < real_of_int W" using WH by simp
  have Hpos: "0 < real_of_int H" using WH by simp
  have spX: "M7_spaceX c p = (v2_x (position c) - v2_x p) / zoom c"
    by (simp add: M7_spaceX_def rm Let_def minus_divide_left[symmetric] flip: minus_divide_left) (simp add: divide_simps)
  have spY: "M7_spaceY c p = (v2_y (position c) - v2_y p) / zoom c * fov c"
    by (simp add: M7_spaceY_def rm Let_def)
  have x_eq: "((real_of_int (W sdiv 2) - sX) * (zoom c / (real_of_int W / real_of_int H))) / sY + v2_x (position c) = v2_x p"
    using z Wpos Hpos dpos by (simp add: sX_def sY_eq spX field_simps)
  have r1: "(1/2 * real_of_int H - sY) / sY = d - 1"
    using Hpos dpos by (simp add: sY_eq field_simps)
  have r2: "(d - 1) * (zoom c / fov c) = v2_y p - v2_y (position c)"
    using z f by (simp add: d_def spY field_simps)
  have "((1/2 * real_of_int H - sY) * (zoom c / fov c)) / sY
        = ((1/2 * real_of_int H - sY) / sY) * (zoom c / fov c)"
    by simp
  then have y_eq: "((1/2 * real_of_int H - sY) * (zoom c / fov c)) / sY + v2_y (position c) = v2_y p"
    by (simp only: r1 r2)
  have tw: "M7_ToWorld c \<lparr>v2_x = sX, v2_y = sY\<rparr> = Some p"
    using z f sY_pos Wpos Hpos x_eq y_eq
    by (simp add: M7_ToWorld_def fdiv_def asp off W H rm Let_def)
  show ?thesis using ts tw by simp
qed

lemma replicate_2: "replicate 2 x = [x, x]"
  by (simp add: numeral_2_eq_2)

lemma ZBuffer_Load_2:
  "M7_ZBuffer_Load 2 = \<lparr>ptrElems = [None, None], elems = [None, None], maxCount = 2, count = 0\<rparr>"
  by (simp add: M7_ZBuffer_Load_def Let_def replicate_2)

lemma Load_camera0:
  "map_option fst (M7_Camera_Load env0 1280 720 \<lparr>v2_x = 0, v2_y = 0\<rparr> 0 80 (1 / 2) (1 / 2) 2) = Some camera0"
  by (simp add: M7_Camera_Load_def fdiv_def setter_defs Let_def LoadRenderTexture_def env0_def
      camera0_def M7_Camera_zero_def ZBuffer_Load_2 Texture2D_zero_def Vector2_zero_def)

lemma reachable_camera0: "reachable camera0"
proof -
  from Load_camera0 obtain g where
    "M7_Camera_Load env0 1280 720 \<lparr>v2_x = 0, v2_y = 0\<rparr> 0 80 (1 / 2) (1 / 2) 2 = Some (camera0, g)"
    by auto
  then show ?thesis by (rule reachable_Load)
qed

lemma ToScreen_aspect: "M7_ToScreen (c\<lparr>aspect := a\<rparr>) p = M7_ToScreen c p"
  by (simp add: M7_ToScreen_def)

lemma Element_Update_aspect:
  "M7_ZBuffer_Element_Update e (c\<lparr>aspect := a\<rparr>) = M7_ZBuffer_Element_Update e c"
  by (simp add: M7_ZBuffer_Element_Update_def ToScreen_aspect)

lemma Update_loop_aspect:
  "M7_ZBuffer_Update_loop (c\<lparr>aspect := a\<rparr>) is
     = map_option (\<lambda>c'. c'\<lparr>aspect := a\<rparr>) (M7_ZBuffer_Update_loop c is)"
proof (induction "is" arbitrary: c)
  case Nil
  show ?case by simp
next
  case (Cons i "is")
  have sw: "c\<lparr>aspect := a, buffer := b\<rparr> = (c\<lparr>buffer := b\<rparr>)\<lparr>aspect := a\<rparr>" for b
    by simp
  show ?case
    by (simp add: Element_Update_aspect sw Cons.IH del: M7_Camera.update_convs split: Option.bind_split)
qed

lemma End_aspect:
  "M7_Camera_End (c\<lparr>aspect := a\<rparr>)
     = map_option (\<lambda>(c', g). (c'\<lparr>aspect := a\<rparr>, g)) (M7_Camera_End c)"
  by (simp add: M7_Camera_End_def M7_ZBuffer_Update_def Update_loop_aspect Let_def
      split: Option.bind_split option.split)

lemma Update_aspect:
  "M7_Camera_Update (c\<lparr>aspect := a\<rparr>) tex pos sc wrap bg
     = map_option (\<lambda>(c', g). (c'\<lparr>aspect := a\<rparr>, g)) (M7_Camera_Update c tex pos sc wrap bg)"
  by (simp add: M7_Camera_Update_def End_aspect M7_Camera_Begin_def M7_Camera_DrawPlane_def Let_def
      split: Option.bind_split option.split)

lemma Move_aspect:
  "M7_Camera_Move inp (c\<lparr>aspect := a\<rparr>) speed
     = (fst (M7_Camera_Move inp c speed)\<lparr>aspect := a\<rparr>, snd (M7_Camera_Move inp c speed))"
  by (simp add: M7_Camera_Move_def setter_defs Let_def split_beta split del: if_split cong: if_cong)

lemma exec_aspect_indep:
  "M7_exec op (c\<lparr>aspect := a\<rparr>) = map_option (\<lambda>(c', g). (c'\<lparr>aspect := a\<rparr>, g)) (M7_exec op c)"
  by (cases op)
     (simp_all add: setter_defs add_defs split_beta Let_def End_aspect Update_aspect Move_aspect
        M7_Camera_Begin_def M7_Camera_DrawPlane_def M7_Camera_Render_def M7_Camera_Unload_def)

lemma Load_aspect_pos:
  assumes "0 < w" "0 < h"
  shows "\<exists>c g. M7_Camera_Load env w h pos rot z f off K = Some (c, g)
           \<and> aspect c = real_of_int (max w h) / real_of_int (min w h) \<and> 1 \<le> aspect c"
  using assms
  by (auto simp: M7_Camera_Load_def fdiv_def setter_defs Let_def max_def min_def)

lemma Load_camera_portrait:
  "map_option fst (M7_Camera_Load env0 720 1280 \<lparr>v2_x = 0, v2_y = 0\<rparr> 0 80 (1 / 2) (1 / 2) 2)
     = Some camera_portrait"
  by (simp add: M7_Camera_Load_def fdiv_def setter_defs Let_def LoadRenderTexture_def env0_def
      camera0_def camera_portrait_def M7_Camera_zero_def ZBuffer_Load_2 Texture2D_zero_def Vector2_zero_def)

lemma ToWorld_eq:
  "M7_ToWorld c p =
     (if aspect c = 0 \<or> fov c = 0 \<or> v2_y p = 0 then None
      else
        (let sx = (real_of_int (tex_width (rt_texture (target c)) sdiv 2) - v2_x p) * (zoom c / aspect c);
             sy = (offset c * real_of_int (tex_height (rt_texture (target c))) - v2_y p) * (zoom c / fov c);
             rotX = sx * m0 (rotMat c) + sy * m1 (rotMat c);
             rotY = sx * m2 (rotMat c) + sy * m3 (rotMat c)
         in Some \<lparr>v2_x = rotX / v2_y p + v2_x (position c), v2_y = rotY / v2_y p + v2_y (position c)\<rparr>))"
  by (simp add: M7_ToWorld_def fdiv_def Let_def)

lemma Element_Update_eq:
  "M7_ZBuffer_Element_Update elem camera =
     (case M7_ToScreen camera (position_sd (onWorld elem)) of
        None \<Rightarrow> None
      | Some posAndSize \<Rightarrow>
          if rec_width (rectangle (onWorld elem)) = 0 \<or> rec_height (rectangle (onWorld elem)) = 0 then None
          else
            (let scaleX = (v3_z posAndSize * v2_x (scale (onWorld elem))) / rec_width (rectangle (onWorld elem));
                 scaleY = (v3_z posAndSize * v2_y (scale (onWorld elem))) / rec_height (rectangle (onWorld elem))
             in Some (elem\<lparr>onScreen :=
                        \<lparr>rectangle =
                           \<lparr>rec_x = v3_x posAndSize - (rec_width (rectangle (onWorld elem)) * scaleX) * 0.5,
                            rec_y = v3_y posAndSize - rec_height (rectangle (onWorld elem)) * scaleY,
                            rec_width = rec_width (rectangle (onWorld elem)) * scaleX,
                            rec_height = rec_width (rectangle (onWorld elem)) * scaleY\<rparr>,
                         position_sd = \<lparr>v2_x = v3_x posAndSize, v2_y = v3_y posAndSize\<rparr>,
                         scale = \<lparr>v2_x = scaleX, v2_y = scaleY\<rparr>\<rparr>,
                      distance := v3_z posAndSize\<rparr>)))"
  by (cases "onScreen elem")
     (simp add: M7_ZBuffer_Element_Update_def fdiv_def Let_def split: option.split)

lemma Add_call_full:
  "count (buffer c) = maxCount (buffer c) \<Longrightarrow> M7_Add_call c r = (None, c)"
  by (simp add: Add_call_eq Element_Add_full)

lemma Add_call_ok:
  assumes "count (buffer c) \<noteq> maxCount (buffer c)"
  shows "M7_Add_call c r =
     (Some (unat (count (buffer c))),
      c\<lparr>buffer := (buffer c)\<lparr>elems := (elems (buffer c))[unat (count (buffer c)) := Some (M7_Add_elem r)],
          ptrElems := (ptrElems (buffer c))[unat (count (buffer c)) := Some (unat (count (buffer c)))],
          count := count (buffer c) + 1\<rparr>\<rparr>)"
  using assms by (simp add: Add_call_eq Element_Add_ok)

lemma Add_calls_run:
  assumes "buffer_inv (buffer c)"
    and "unat (count (buffer c)) + length reqs \<le> unat (maxCount (buffer c))"
  shows "fst (M7_Add_calls c reqs)
           = map Some [unat (count (buffer c)) ..< unat (count (buffer c)) + length reqs]
       \<and> unat (count (buffer (snd (M7_Add_calls c reqs)))) = unat (count (buffer c)) + length reqs
       \<and> maxCount (buffer (snd (M7_Add_calls c reqs))) = maxCount (buffer c)
       \<and> buffer_inv (buffer (snd (M7_Add_calls c reqs)))
       \<and> (\<forall>i < length reqs. load_slot (elems (buffer (snd (M7_Add_calls c reqs)))) (unat (count (buffer c)) + i)
             = Some (M7_Add_elem (reqs ! i)))
       \<and> (\<forall>j < unat (count (buffer c)). load_slot (elems (buffer (snd (M7_Add_calls c reqs)))) j
             = load_slot (elems (buffer c)) j)"
  using assms
proof (induction reqs arbitrary: c)
  case Nil
  then show ?case by simp
next
  case (Cons r rs)
  define n where "n = unat (count (buffer c))"
  define c1 where "c1 = snd (M7_Add_call c r)"
  have inv: "buffer_inv (buffer c)" by (rule Cons.prems(1))
  have room: "n + Suc (length rs) \<le> unat (maxCount (buffer c))"
    using Cons.prems(2) by (simp add: n_def)
  have le: "count (buffer c) \<le> maxCount (buffer c)" using inv by (simp add: buffer_inv_def)
  have ne: "count (buffer c) \<noteq> maxCount (buffer c)" using room by (auto simp: n_def)
  have call: "M7_Add_call c r = (Some n, c1)"
    unfolding c1_def n_def using Add_call_ok[OF ne, of r] by simp
  have c1: "c1 = c\<lparr>buffer := (buffer c)\<lparr>elems := (elems (buffer c))[n := Some (M7_Add_elem r)],
          ptrElems := (ptrElems (buffer c))[n := Some n], count := count (buffer c) + 1\<rparr>\<rparr>"
    unfolding c1_def n_def using Add_call_ok[OF ne, of r] by simp
  have n1: "unat (count (buffer c1)) = Suc n"
    using word_inc_unat(2)[OF le ne] by (simp add: c1 n_def)
  have m1: "maxCount (buffer c1) = maxCount (buffer c)" by (simp add: c1)
  have inv1: "buffer_inv (buffer c1)"
    using Element_Add_inv[OF inv, of "M7_Add_elem r"] by (simp add: c1_def Add_call_eq)
  have room1: "unat (count (buffer c1)) + length rs \<le> unat (maxCount (buffer c1))"
    using room by (simp add: n1 m1)
  note IH = Cons.IH[OF inv1 room1, unfolded n1 m1]
  have run: "M7_Add_calls c (r # rs) = (Some n # fst (M7_Add_calls c1 rs), snd (M7_Add_calls c1 rs))"
    by (simp add: call split_beta)
  have nlen: "n < length (elems (buffer c))"
    using room inv by (simp add: buffer_inv_def)
  have slot_n: "load_slot (elems (buffer c1)) n = Some (M7_Add_elem r)"
    using nlen by (simp add: c1 load_slot_def)
  have slot_old: "load_slot (elems (buffer c1)) j = load_slot (elems (buffer c)) j" if "j < n" for j
    using that by (simp add: c1 load_slot_def)
  from IH have ih1: "fst (M7_Add_calls c1 rs) = map Some [Suc n ..< Suc n + length rs]"
    and ih2: "unat (count (buffer (snd (M7_Add_calls c1 rs)))) = Suc n + length rs"
    and ih3: "maxCount (buffer (snd (M7_Add_calls c1 rs))) = maxCount (buffer c)"
    and ih4: "buffer_inv (buffer (snd (M7_Add_calls c1 rs)))"
    and ih5: "\<forall>i < length rs. load_slot (elems (buffer (snd (M7_Add_calls c1 rs)))) (Suc n + i)
                = Some (M7_Add_elem (rs ! i))"
    and ih6: "\<forall>j < Suc n. load_slot (elems (buffer (snd (M7_Add_calls c1 rs)))) j
                = load_slot (elems (buffer c1)) j"
    by blast+
  have fst_run: "fst (M7_Add_calls c (r # rs)) = Some n # fst (M7_Add_calls c1 rs)"
    and snd_run: "snd (M7_Add_calls c (r # rs)) = snd (M7_Add_calls c1 rs)"
    by (simp_all only: run fst_conv snd_conv)
  have "n < n + length (r # rs)" by simp
  then have "[n ..< n + length (r # rs)] = n # [Suc n ..< n + length (r # rs)]"
    by (rule upt_conv_Cons)
  then have "[n ..< n + length (r # rs)] = n # [Suc n ..< Suc n + length rs]"
    by (simp del: upt_Suc)
  then have p1: "fst (M7_Add_calls c (r # rs)) = map Some [n ..< n + length (r # rs)]"
    by (simp only: fst_run ih1 list.map)
  have p2: "unat (count (buffer (snd (M7_Add_calls c (r # rs))))) = n + length (r # rs)"
    by (simp only: snd_run ih2) simp
  have p3: "maxCount (buffer (snd (M7_Add_calls c (r # rs)))) = maxCount (buffer c)"
    by (simp only: snd_run ih3)
  have p4: "buffer_inv (buffer (snd (M7_Add_calls c (r # rs))))"
    by (simp only: snd_run ih4)
  have p5: "load_slot (elems (buffer (snd (M7_Add_calls c (r # rs))))) (n + i)
             = Some (M7_Add_elem ((r # rs) ! i))" if "i < length (r # rs)" for i
  proof (cases i)
    case 0
    have "load_slot (elems (buffer (snd (M7_Add_calls c1 rs)))) n = load_slot (elems (buffer c1)) n"
      using ih6 by simp
    then show ?thesis using slot_n by (simp add: snd_run 0 del: M7_Add_calls.simps)
  next
    case (Suc k)
    then have "k < length rs" using that by simp
    then have "load_slot (elems (buffer (snd (M7_Add_calls c1 rs)))) (Suc n + k) = Some (M7_Add_elem (rs ! k))"
      using ih5 by blast
    then show ?thesis by (simp add: snd_run Suc del: M7_Add_calls.simps)
  qed
  have p6: "load_slot (elems (buffer (snd (M7_Add_calls c (r # rs))))) j = load_slot (elems (buffer c)) j"
    if "j < n" for j
  proof -
    have "load_slot (elems (buffer (snd (M7_Add_calls c1 rs)))) j = load_slot (elems (buffer c1)) j"
      using ih6 that by simp
    then show ?thesis using slot_old[OF that] by (simp add: snd_run del: M7_Add_calls.simps)
  qed
  show ?case
    unfolding n_def[symmetric] using p1 p2 p3 p4 p5 p6 by blast
qed

lemma Sort_elems: "M7_ZBuffer_Sort buf = Some buf' \<Longrightarrow> elems buf' = elems buf"
  by (auto simp: M7_ZBuffer_Sort_def Let_def split: if_splits)

lemma Compare_le:
  "(M7_ZBuffer_Compare (elems buf) a b \<le> 0) = (distance (deref buf a) \<le> distance (deref buf b))"
  by (simp add: M7_ZBuffer_Compare_def deref_def Let_def)

lemma set_qsort_insert: "set (qsort_insert cmp a bs) = insert a (set bs)"
  by (induction bs) auto

lemma sorted_qsort_insert:
  fixes k :: "'a \<Rightarrow> real"
  assumes "\<And>a b. (cmp a b \<le> 0) = (k a \<le> k b)" and "sorted (map k bs)"
  shows "sorted (map k (qsort_insert cmp a bs))"
  using assms(2)
proof (induction bs)
  case Nil
  show ?case by simp
next
  case (Cons b bs)
  show ?case
  proof (cases "cmp a b \<le> 0")
    case True
    then have "k a \<le> k b" by (simp add: assms(1))
    then show ?thesis using True Cons.prems by auto
  next
    case False
    then have "k b \<le> k a" by (simp add: assms(1))
    then show ?thesis using False Cons by (auto simp: set_qsort_insert)
  qed
qed

lemma sorted_qsort:
  fixes k :: "'a \<Rightarrow> real"
  assumes "\<And>a b. (cmp a b \<le> 0) = (k a \<le> k b)"
  shows "sorted (map k (qsort cmp as))"
  by (induction as) (simp_all add: sorted_qsort_insert[OF assms])

lemma map_nth_take: "n \<le> length xs \<Longrightarrow> map (\<lambda>i. f (xs ! i)) [0 ..< n] = map f (take n xs)"
  by (simp add: list_eq_iff_nth_eq)

lemma Draw_loop_eq:
  assumes "\<forall>i \<in> set is. i < length (ptrElems buf) \<and> valid_ptr (elems buf) (ptrElems buf ! i)"
  shows "M7_ZBuffer_Draw_loop buf is
           = Some (concat (map (\<lambda>i. M7_ZBuffer_Element_Draw (deref buf (ptrElems buf ! i))) is))"
  using assms
proof (induction "is")
  case Nil
  show ?case by simp
next
  case (Cons i "is")
  then have i: "i < length (ptrElems buf)" and v: "valid_ptr (elems buf) (ptrElems buf ! i)" by simp_all
  from v obtain p e where p: "ptrElems buf ! i = Some p" and e: "load_slot (elems buf) p = Some e"
    by (auto simp: valid_ptr_def split: option.splits)
  have d: "deref buf (ptrElems buf ! i) = e"
    using e by (simp add: deref_def p load_slot_def split: if_splits)
  have "load_slot (ptrElems buf) i = Some p" using i p by (simp add: load_slot_def)
  then show ?case using e d Cons by simp
qed

lemma Draw_eq:
  assumes "unat (count buf) \<le> length (ptrElems buf)"
    and "list_all (valid_ptr (elems buf)) (take (unat (count buf)) (ptrElems buf))"
  shows "M7_ZBuffer_Draw buf
           = Some (concat (map (\<lambda>a. M7_ZBuffer_Element_Draw (deref buf a)) (take (unat (count buf)) (ptrElems buf))))"
proof -
  have "\<forall>i \<in> set [0 ..< unat (count buf)]. i < length (ptrElems buf) \<and> valid_ptr (elems buf) (ptrElems buf ! i)"
    using assms by (auto simp: list_all_length)
  then have "M7_ZBuffer_Draw buf = Some (concat (map (\<lambda>i. M7_ZBuffer_Element_Draw (deref buf (ptrElems buf ! i)))
      [0 ..< unat (count buf)]))"
    unfolding M7_ZBuffer_Draw_def by (rule Draw_loop_eq)
  then show ?thesis
    using map_nth_take[OF assms(1), of "\<lambda>a. M7_ZBuffer_Element_Draw (deref buf a)"] by simp
qed

lemma Sort_result:
  assumes "M7_ZBuffer_Sort buf = Some buf'"
  shows "take (unat (count buf')) (ptrElems buf')
           = qsort (M7_ZBuffer_Compare (elems buf)) (take (unat (count buf)) (ptrElems buf))"
    and "elems buf' = elems buf" and "count buf' = count buf" and "maxCount buf' = maxCount buf"
    and "unat (count buf) \<le> length (ptrElems buf)"
    and "length (ptrElems buf') = length (ptrElems buf)"
    and "list_all (valid_ptr (elems buf)) (take (unat (count buf)) (ptrElems buf))"
  using assms
  by (auto simp: M7_ZBuffer_Sort_def Let_def length_qsort split: if_splits)

lemma Sort_defined:
  "buffer_inv buf \<Longrightarrow> \<exists>buf'. M7_ZBuffer_Sort buf = Some buf'"
  by (simp add: M7_ZBuffer_Sort_def buffer_inv_def Let_def word_le_nat_alt)

lemma Sort_buffer3:
  "M7_ZBuffer_Sort buffer3 = Some (buffer3\<lparr>ptrElems := [Some 1, Some 2, Some 0]\<rparr>)"
  by (simp add: M7_ZBuffer_Sort_def buffer3_def Let_def valid_ptr_def load_slot_def
      M7_ZBuffer_Compare_def)

text \<open>
  The screen-to-world transform undoes the world-to-screen transform, for every rotation,
  whenever \<open>aspect\<close> is the width of the target over its height and no divisor is zero.
\<close>

lemma roundtrip_general_core:
  assumes rm: "rotMat c = \<lparr>m0 = cs, m1 = - sn, m2 = sn, m3 = cs\<rparr>"
    and unit: "cs * cs + sn * sn = 1"
    and off: "offset c \<noteq> 0" and z: "zoom c \<noteq> 0" and f: "fov c \<noteq> 0"
    and W: "tex_width (rt_texture (target c)) = W" and H: "tex_height (rt_texture (target c)) = H"
    and WH: "W \<noteq> 0" "H \<noteq> 0"
    and asp: "aspect c = real_of_int W / real_of_int H"
    and d: "1 - M7_spaceY c p \<noteq> 0"
  shows "\<exists>s. M7_ToScreen c p = Some s \<and> M7_ToWorld c \<lparr>v2_x = v3_x s, v2_y = v3_y s\<rparr> = Some p"
proof -
  define d where "d = 1 - M7_spaceY c p"
  define oX where "oX = (v2_x p - v2_x (position c)) / zoom c"
  define oY where "oY = (v2_y (position c) - v2_y p) / zoom c"
  define ofs where "ofs = offset c"
  define w where "w = real_of_int W"
  define h where "h = real_of_int H"
  have dnz: "d \<noteq> 0" using d by (simp add: d_def)
  have wnz: "w \<noteq> 0" and hnz: "h \<noteq> 0" using WH by (simp_all add: w_def h_def)
  have ofs_nz: "ofs \<noteq> 0" using off by (simp add: ofs_def)
  have spX: "M7_spaceX c p = - oX * cs + oY * sn"
    by (simp add: M7_spaceX_def rm Let_def oX_def oY_def flip: minus_divide_left)
  have spY: "M7_spaceY c p = (oX * sn + oY * cs) * fov c"
    by (simp add: M7_spaceY_def rm Let_def oX_def oY_def flip: minus_divide_left)
  define sX where "sX = (M7_spaceX c p / d) * ofs * w + real_of_int (W sdiv 2)"
  define sY where "sY = ((M7_spaceY c p + ofs - 1) / d) * h + h"
  define sZ where "sZ = (ofs * w) / (zoom c * d)"
  have ts: "M7_ToScreen c p = Some \<lparr>v3_x = sX, v3_y = sY, v3_z = sZ\<rparr>"
    using z dnz by (simp add: M7_ToScreen_eq Let_def d_def[symmetric] W H sX_def sY_def sZ_def ofs_def w_def h_def)
  have sY_eq: "sY = h * ofs / d"
    using dnz by (simp add: sY_def d_def field_simps)
  have sY_nz: "sY \<noteq> 0" using dnz hnz ofs_nz by (simp add: sY_eq)
  define sx where "sx = (real_of_int (W sdiv 2) - sX) * (zoom c / (w / h))"
  define sy where "sy = (ofs * h - sY) * (zoom c / fov c)"
  have a: "sx / sY = - M7_spaceX c p * zoom c"
    using dnz hnz wnz ofs_nz by (simp add: sx_def sX_def sY_eq field_simps)
  have r1: "(ofs * h - sY) / sY = d - 1"
    using dnz hnz ofs_nz by (simp add: sY_eq field_simps)
  have "sy / sY = ((ofs * h - sY) / sY) * (zoom c / fov c)"
    by (simp add: sy_def)
  then have "sy / sY = (d - 1) * (zoom c / fov c)"
    by (simp only: r1)
  also have "\<dots> = - (oX * sn + oY * cs) * zoom c"
    using f by (simp add: d_def spY field_simps)
  finally have b: "sy / sY = - (oX * sn + oY * cs) * zoom c" .
  have "(sx * cs + sy * (- sn)) / sY = (sx / sY) * cs - (sy / sY) * sn"
    by (simp add: add_divide_distrib diff_divide_distrib)
  also have "\<dots> = zoom c * oX * (cs * cs + sn * sn)"
    by (simp only: a b spX) (simp add: algebra_simps)
  finally have x1: "(sx * cs + sy * (- sn)) / sY = zoom c * oX" by (simp add: unit)
  have "(sx * sn + sy * cs) / sY = (sx / sY) * sn + (sy / sY) * cs"
    by (simp add: add_divide_distrib)
  also have "\<dots> = - (zoom c * oY * (cs * cs + sn * sn))"
    by (simp only: a b spX) (simp add: algebra_simps)
  finally have y1: "(sx * sn + sy * cs) / sY = - (zoom c * oY)" by (simp add: unit)
  have x2: "(sx * cs + sy * (- sn)) / sY + v2_x (position c) = v2_x p"
    using z by (simp only: x1) (simp add: oX_def)
  have y2: "(sx * sn + sy * cs) / sY + v2_y (position c) = v2_y p"
    using z by (simp only: y1) (simp add: oY_def)
  have aspnz: "aspect c \<noteq> 0" using wnz hnz by (simp add: asp w_def h_def)
  have tw: "M7_ToWorld c \<lparr>v2_x = sX, v2_y = sY\<rparr> = Some p"
    using x2 y2 f sY_nz aspnz
    by (simp add: ToWorld_eq Let_def rm W H asp sx_def sy_def ofs_def w_def h_def)
  show ?thesis using ts tw by simp
qed

lemma roundtrip_general:
  assumes "reachable c"
    and "aspect c = real_of_int (tex_width (rt_texture (target c))) / real_of_int (tex_height (rt_texture (target c)))"
    and "tex_width (rt_texture (target c)) \<noteq> 0" and "tex_height (rt_texture (target c)) \<noteq> 0"
    and "zoom c \<noteq> 0" and "fov c \<noteq> 0" and "offset c \<noteq> 0"
    and "1 - M7_spaceY c p \<noteq> 0"
  shows "\<exists>s. M7_ToScreen c p = Some s \<and> M7_ToWorld c \<lparr>v2_x = v3_x s, v2_y = v3_y s\<rparr> = Some p"
proof -
  have u: "cos (rotation c) * cos (rotation c) + sin (rotation c) * sin (rotation c) = 1"
    using sin_cos_squared_add2[of "rotation c"] by (simp add: power2_eq_square)
  show ?thesis
    using reachable_rotMat[OF assms(1)] u assms(7,5,6) refl refl assms(3,4,2,8)
    by (rule roundtrip_general_core)
qed


lemma roundtrip_landscape:
  assumes "reachable c"
    and "rotation c = 0" and "offset c = 1 / 2" and "0 < zoom c" and "0 < fov c"
    and "0 < tex_height (rt_texture (target c))"
    and "tex_height (rt_texture (target c)) \<le> tex_width (rt_texture (target c))"
    and "0 < 1 - M7_spaceY c p"
  shows "\<exists>s. M7_ToScreen c p = Some s \<and> M7_ToWorld c \<lparr>v2_x = v3_x s, v2_y = v3_y s\<rparr> = Some p"
proof -
  have rm: "rotMat c = \<lparr>m0 = 1, m1 = 0, m2 = 0, m3 = 1\<rparr>"
    using reachable_rotMat[OF assms(1)] assms(2) by simp
  have "aspect c = real_of_int (tex_width (rt_texture (target c))) / real_of_int (tex_height (rt_texture (target c)))"
    using reachable_aspect[OF assms(1)] assms(6,7)
    by (simp add: fdiv_def max_def min_def split: if_splits)
  then show ?thesis
    using rm assms by (intro roundtrip_core[where W = "tex_width (rt_texture (target c))"
          and H = "tex_height (rt_texture (target c))"]) simp_all
qed


subsection \<open>The world-to-screen transform\<close>

text \<open>
  Claim C1. For every camera state, \<open>M7_ToScreen\<close> computes the depth of a world point as
  1 minus the rotated, fov-scaled vertical camera-space coordinate (\<open>M7_spaceY\<close>), and the
  apparent size it returns is (offset * surface width) / (zoom * depth); the result is a real
  vector exactly when neither \<open>zoom\<close> nor the depth is zero. For the camera loaded at
  position (0,0) with rotation 0, zoom 80, fov 0.5 and offset 0.5 on a 1280 by 720 target, the
  world point (0,0) has depth 1, screen x-coordinate 640 and screen y-coordinate
  ((0 + offset - 1) / 1) * height + height.
\<close>

theorem M7_ToScreen_depth_size:
  "M7_ToScreen camera point =
     (let depth = 1 - M7_spaceY camera point;
          width = real_of_int (tex_width (rt_texture (target camera)));
          half_width = real_of_int (tex_width (rt_texture (target camera)) sdiv 2);
          height = real_of_int (tex_height (rt_texture (target camera)))
      in if zoom camera = 0 \<or> depth = 0 then None
         else Some \<lparr>v3_x = (M7_spaceX camera point / depth) * offset camera * width + half_width,
                    v3_y = ((M7_spaceY camera point + offset camera - 1) / depth) * height + height,
                    v3_z = (offset camera * width) / (zoom camera * depth)\<rparr>)
   \<and> (case M7_Camera_Load env 1280 720 \<lparr>v2_x = 0, v2_y = 0\<rparr> 0 80 (1 / 2) (1 / 2) maxSprites of
         None \<Rightarrow> False
       | Some (c, g) \<Rightarrow>
           1 - M7_spaceY c \<lparr>v2_x = 0, v2_y = 0\<rparr> = 1 \<and>
           M7_ToScreen c \<lparr>v2_x = 0, v2_y = 0\<rparr> =
             Some \<lparr>v3_x = 640, v3_y = ((0 + 1 / 2 - 1) / 1) * 720 + 720, v3_z = (1 / 2 * 1280) / (80 * 1)\<rparr>)"
  apply (rule conjI)
   apply (rule M7_ToScreen_eq)
  apply (simp add: M7_Camera_Load_def fdiv_def Let_def setter_defs LoadRenderTexture_def
      M7_ToScreen_def M7_spaceY_def signed_divide_int_def)
  done

theorem M7_ToScreen_depth_size_witness:
  "M7_ToScreen camera0 \<lparr>v2_x = 0, v2_y = 0\<rparr> = Some \<lparr>v3_x = 640, v3_y = 360, v3_z = 8\<rparr>"
  using M7_ToScreen_depth_size[of camera0 "\<lparr>v2_x = 0, v2_y = 0\<rparr>" env0 2]
  by (simp add: camera0_def M7_spaceX_def M7_spaceY_def Let_def signed_divide_int_def)

subsection \<open>The cached rotation matrix\<close>

text \<open>
  Claim C6. In every reachable camera state the cached rotation matrix is
  (cos r, - sin r, sin r, cos r) for the camera's current rotation r:
  \<open>M7_Camera_SetRotation\<close> stores the new angle and recomputes the matrix from it,
  \<open>M7_Camera_Rotate\<close> goes through \<open>M7_Camera_SetRotation\<close>, and every operation
  of the interface keeps the correspondence (none sets the matrix on its own).
\<close>

theorem rotMat_follows_rotation:
  "(reachable camera \<longrightarrow>
      rotMat camera = \<lparr>m0 = cos (rotation camera), m1 = - sin (rotation camera),
                       m2 = sin (rotation camera), m3 = cos (rotation camera)\<rparr>)
   \<and> rotation (fst (M7_Camera_SetRotation c \<theta>)) = \<theta>
   \<and> rotMat (fst (M7_Camera_SetRotation c \<theta>)) = \<lparr>m0 = cos \<theta>, m1 = - sin \<theta>, m2 = sin \<theta>, m3 = cos \<theta>\<rparr>
   \<and> M7_Camera_Rotate c delta = M7_Camera_SetRotation c (rotation c + delta)
   \<and> (M7_exec op c1 = Some (c2, g) \<and>
        rotMat c1 = \<lparr>m0 = cos (rotation c1), m1 = - sin (rotation c1),
                     m2 = sin (rotation c1), m3 = cos (rotation c1)\<rparr>
      \<longrightarrow> rotMat c2 = \<lparr>m0 = cos (rotation c2), m1 = - sin (rotation c2),
                        m2 = sin (rotation c2), m3 = cos (rotation c2)\<rparr>)"
  using reachable_rotMat[of camera] exec_rotMat[of op c1 c2 g]
  by (simp add: M7_Camera_SetRotation_def M7_Camera_Rotate_def Let_def)

theorem rotMat_follows_rotation_witness:
  "reachable (fst (M7_Camera_SetRotation camera0 pi))
   \<and> M7_exec (Op_SetRotation pi) camera0 = Some (M7_Camera_SetRotation camera0 pi)
   \<and> rotMat camera0 = \<lparr>m0 = cos (rotation camera0), m1 = - sin (rotation camera0),
                       m2 = sin (rotation camera0), m3 = cos (rotation camera0)\<rparr>
   \<and> rotMat (fst (M7_Camera_SetRotation camera0 pi)) = \<lparr>m0 = - 1, m1 = 0, m2 = 0, m3 = - 1\<rparr>"
proof -
  have r: "reachable (fst (M7_Camera_SetRotation camera0 pi))"
    by (rule reachable_step[OF reachable_camera0, of "Op_SetRotation pi"]) (simp add: M7_step_def)
  have e: "M7_exec (Op_SetRotation pi) camera0 = Some (M7_Camera_SetRotation camera0 pi)" by simp
  have i: "rotMat camera0 = \<lparr>m0 = cos (rotation camera0), m1 = - sin (rotation camera0),
                       m2 = sin (rotation camera0), m3 = cos (rotation camera0)\<rparr>"
    by (simp add: camera0_def)
  from rotMat_follows_rotation[of "fst (M7_Camera_SetRotation camera0 pi)" camera0 pi 0
        "Op_SetRotation pi" camera0 "fst (M7_Camera_SetRotation camera0 pi)" "snd (M7_Camera_SetRotation camera0 pi)"]
    r e i
  show ?thesis by (simp add: M7_Camera_SetRotation_def Let_def)
qed


subsection \<open>The screen-to-world transform\<close>

text \<open>
  Claim C8, as the code has it. \<open>M7_ToWorld\<close> divides by the vertical coordinate of the
  input point, and also by the camera's \<open>fov\<close> and by its \<open>aspect\<close>; none of the three
  divisions is guarded. The result is a real point exactly when all three divisors are
  non-zero, and then it is the value of the source's formula; a vertical coordinate of 0
  is a division by zero.
\<close>

theorem M7_ToWorld_divisors:
  "(M7_ToWorld c p = None) = (aspect c = 0 \<or> fov c = 0 \<or> v2_y p = 0)
   \<and> M7_ToWorld c p =
     (if aspect c = 0 \<or> fov c = 0 \<or> v2_y p = 0 then None
      else
        (let sx = (real_of_int (tex_width (rt_texture (target c)) sdiv 2) - v2_x p) * (zoom c / aspect c);
             sy = (offset c * real_of_int (tex_height (rt_texture (target c))) - v2_y p) * (zoom c / fov c);
             rotX = sx * m0 (rotMat c) + sy * m1 (rotMat c);
             rotY = sx * m2 (rotMat c) + sy * m3 (rotMat c)
         in Some \<lparr>v2_x = rotX / v2_y p + v2_x (position c), v2_y = rotY / v2_y p + v2_y (position c)\<rparr>))"
  by (simp add: ToWorld_eq Let_def)

theorem M7_ToWorld_divisors_witness:
  "M7_ToWorld camera0 \<lparr>v2_x = 0, v2_y = 360\<rparr> = Some \<lparr>v2_x = 80, v2_y = 0\<rparr>
   \<and> M7_ToWorld camera0 \<lparr>v2_x = 0, v2_y = 0\<rparr> = None"
  using M7_ToWorld_divisors[of camera0 "\<lparr>v2_x = 0, v2_y = 360\<rparr>"]
        M7_ToWorld_divisors[of camera0 "\<lparr>v2_x = 0, v2_y = 0\<rparr>"]
  by (simp add: camera0_def Let_def signed_divide_int_def)

text \<open>
  The claim as stated (the division by the vertical coordinate is the only partial operation)
  fails after \<open>M7_Camera_SetFOV camera 0\<close>: the vertical coordinate 360 is not zero and the
  transform still divides by zero.
\<close>

theorem M7_ToWorld_fov_counterexample:
  "reachable (fst (M7_Camera_SetFOV camera0 0))
   \<and> v2_y \<lparr>v2_x = 640, v2_y = 360\<rparr> \<noteq> 0
   \<and> M7_ToWorld (fst (M7_Camera_SetFOV camera0 0)) \<lparr>v2_x = 640, v2_y = 360\<rparr> = None"
proof -
  have "reachable (fst (M7_Camera_SetFOV camera0 0))"
    by (rule reachable_step[OF reachable_camera0, of "Op_SetFOV 0"]) (simp add: M7_step_def)
  then show ?thesis
    by (simp add: ToWorld_eq M7_Camera_SetFOV_def)
qed

text \<open>
  Claim C7 says that for every camera with rotation 0, offset 0.5, zoom > 0 and fov > 0, and
  every world point of positive depth, \<open>M7_ToWorld\<close> applied to the screen x and y that
  \<open>M7_ToScreen\<close> returns gives the world point back. \<open>M7_ToWorld\<close> is the inverse of
  \<open>M7_ToScreen\<close> whenever \<open>aspect\<close> is width / height (\<open>roundtrip_general\<close>), which is
  what the first branch of the conditional in \<open>M7_Camera_Load\<close> stores; the other branch
  stores height / width, and on a target higher than wide the round trip fails. On the camera
  loaded with the parameters of the claim on a 720 by 1280 target, the world point (80, 0) of
  depth 1 goes to the screen point (0, 640) and comes back as (405/16, 0); with \<open>aspect\<close>
  set to 720 / 1280 the same screen point goes back to (80, 0).
\<close>

theorem roundtrip_fails_on_portrait:
  "map_option fst (M7_Camera_Load env0 720 1280 \<lparr>v2_x = 0, v2_y = 0\<rparr> 0 80 (1 / 2) (1 / 2) 2)
     = Some camera_portrait
   \<and> rotation camera_portrait = 0 \<and> offset camera_portrait = 1 / 2
   \<and> 0 < zoom camera_portrait \<and> 0 < fov camera_portrait
   \<and> 0 < 1 - M7_spaceY camera_portrait \<lparr>v2_x = 80, v2_y = 0\<rparr>
   \<and> M7_ToScreen camera_portrait \<lparr>v2_x = 80, v2_y = 0\<rparr> = Some \<lparr>v3_x = 0, v3_y = 640, v3_z = 9 / 2\<rparr>
   \<and> M7_ToWorld camera_portrait \<lparr>v2_x = 0, v2_y = 640\<rparr> = Some \<lparr>v2_x = 405 / 16, v2_y = 0\<rparr>
   \<and> M7_ToWorld camera_portrait \<lparr>v2_x = 0, v2_y = 640\<rparr> \<noteq> Some \<lparr>v2_x = 80, v2_y = 0\<rparr>
   \<and> aspect camera_portrait = 1280 / 720
   \<and> M7_ToWorld (camera_portrait\<lparr>aspect := 720 / 1280\<rparr>) \<lparr>v2_x = 0, v2_y = 640\<rparr>
        = Some \<lparr>v2_x = 80, v2_y = 0\<rparr>"
  by (simp add: Load_camera_portrait)
     (simp add: camera_portrait_def camera0_def M7_ToScreen_eq ToWorld_eq M7_spaceX_def M7_spaceY_def
        Let_def signed_divide_int_def)

subsection \<open>The aspect ratio\<close>

text \<open>
  Claim C10. \<open>M7_Camera_Load\<close> sets \<open>aspect\<close> to the larger screen dimension over the
  smaller one, so for positive dimensions the camera loads and \<open>aspect\<close> is at least 1; no
  operation of the interface changes the field afterwards; \<open>M7_ToScreen\<close> and all the
  operations are independent of it, and \<open>M7_ToWorld\<close> reads it.
\<close>

theorem aspect_set_by_Load_only:
  "(M7_Camera_Load env w h pos rot z f off K = Some (c0, g0) \<longrightarrow>
      real_of_int (min w h) \<noteq> 0 \<and> aspect c0 = real_of_int (max w h) / real_of_int (min w h))
   \<and> (0 < w \<and> 0 < h \<longrightarrow>
        (\<exists>c g. M7_Camera_Load env w h pos rot z f off K = Some (c, g)
           \<and> aspect c = real_of_int (max w h) / real_of_int (min w h) \<and> 1 \<le> aspect c))
   \<and> (M7_exec op c1 = Some (c2, g2) \<longrightarrow> aspect c2 = aspect c1)
   \<and> M7_ToScreen (c\<lparr>aspect := a\<rparr>) p = M7_ToScreen c p
   \<and> M7_exec op' (c\<lparr>aspect := a\<rparr>) = map_option (\<lambda>(c', g). (c'\<lparr>aspect := a\<rparr>, g)) (M7_exec op' c)
   \<and> M7_ToWorld (camera0\<lparr>aspect := 1\<rparr>) \<lparr>v2_x = 0, v2_y = 360\<rparr>
        \<noteq> M7_ToWorld camera0 \<lparr>v2_x = 0, v2_y = 360\<rparr>"
proof -
  have 1: "M7_Camera_Load env w h pos rot z f off K = Some (c0, g0) \<longrightarrow>
      real_of_int (min w h) \<noteq> 0 \<and> aspect c0 = real_of_int (max w h) / real_of_int (min w h)"
    using Load_fields(9)[of env w h pos rot z f off K c0 g0]
    by (auto simp: fdiv_def split: if_splits)
  have 2: "0 < w \<and> 0 < h \<longrightarrow>
        (\<exists>c g. M7_Camera_Load env w h pos rot z f off K = Some (c, g)
           \<and> aspect c = real_of_int (max w h) / real_of_int (min w h) \<and> 1 \<le> aspect c)"
    using Load_aspect_pos by blast
  have 3: "M7_exec op c1 = Some (c2, g2) \<longrightarrow> aspect c2 = aspect c1"
    using exec_aspect(1) by blast
  have 6: "M7_ToWorld (camera0\<lparr>aspect := 1\<rparr>) \<lparr>v2_x = 0, v2_y = 360\<rparr>
        \<noteq> M7_ToWorld camera0 \<lparr>v2_x = 0, v2_y = 360\<rparr>"
    by (simp add: ToWorld_eq camera0_def Let_def signed_divide_int_def)
  show ?thesis
    using 1 2 3 6 ToScreen_aspect exec_aspect_indep by blast
qed

theorem aspect_set_by_Load_only_witness:
  "map_option fst (M7_Camera_Load env0 1280 720 \<lparr>v2_x = 0, v2_y = 0\<rparr> 0 80 (1 / 2) (1 / 2) 2) = Some camera0
   \<and> aspect camera0 = real_of_int (max 1280 720) / real_of_int (min 1280 720)
   \<and> M7_exec (Op_SetZoom 40) camera0 = Some (M7_Camera_SetZoom camera0 40)
   \<and> aspect (fst (M7_Camera_SetZoom camera0 40)) = aspect camera0
   \<and> (0::int) < 1280 \<and> (0::int) < 720"
proof -
  from Load_camera0 obtain g where
    l: "M7_Camera_Load env0 1280 720 \<lparr>v2_x = 0, v2_y = 0\<rparr> 0 80 (1 / 2) (1 / 2) 2 = Some (camera0, g)"
    by auto
  have e: "M7_exec (Op_SetZoom 40) camera0
             = Some (fst (M7_Camera_SetZoom camera0 40), snd (M7_Camera_SetZoom camera0 40))" by simp
  note t = aspect_set_by_Load_only[of env0 1280 720 "\<lparr>v2_x = 0, v2_y = 0\<rparr>" 0 80 "1 / 2" "1 / 2" 2 camera0 g
      "Op_SetZoom 40" camera0 "fst (M7_Camera_SetZoom camera0 40)" "snd (M7_Camera_SetZoom camera0 40)"]
  from t l have a: "aspect camera0 = real_of_int (max 1280 720) / real_of_int (min 1280 720)"
    by blast
  from t e have b: "aspect (fst (M7_Camera_SetZoom camera0 40)) = aspect camera0"
    by blast
  show ?thesis using Load_camera0 a b by simp
qed

subsection \<open>Updating and drawing one element\<close>

text \<open>
  Claim C5 says that the height of the screen rectangle is the world rectangle's height times
  the screen scale y. \<open>M7_ZBuffer_Element_Update\<close> multiplies the world rectangle's
  \<^emph>\<open>width\<close> by the screen scale y instead (the line above it, for \<open>rec_y\<close>, uses the
  height). On a 16 by 32 source rectangle with world scale (8, 8), seen by the camera of the
  scenario at depth 1, the screen scale is (4, 2) and the height stored is 16 * 2 = 32, where
  the claim gives 32 * 2 = 64.
\<close>

theorem Element_Update_screen_height:
  "M7_ZBuffer_Element_Update sprite_tall camera0 =
     Some (sprite_tall\<lparr>onScreen :=
             \<lparr>rectangle = \<lparr>rec_x = 608, rec_y = 296, rec_width = 64, rec_height = 32\<rparr>,
              position_sd = \<lparr>v2_x = 640, v2_y = 360\<rparr>,
              scale = \<lparr>v2_x = 4, v2_y = 2\<rparr>\<rparr>,
           distance := 8\<rparr>)
   \<and> rec_height (rectangle (onWorld sprite_tall)) * 2 = 64"
  by (simp add: Element_Update_eq M7_ToScreen_eq sprite_tall_def M7_Texture_elem_def camera0_def
      M7_spaceX_def M7_spaceY_def Let_def signed_divide_int_def)

text \<open>
  Claim C4, as the code has it. A textured element is drawn if and only if, on both axes, its
  screen-space scale is positive exactly when its world-space scale is positive (a zero scale
  counts with the negative ones); when no scale is zero this is agreement of the signs.
  Rectangles and circles are always drawn. A textured element with world scale (8, 8) and
  screen scale (-8, y) is not drawn; a rectangle with the same geometry is.
\<close>

theorem Element_Draw_rule:
  "(type e = M7_ZBT_TEXTURE \<longrightarrow>
      M7_ZBuffer_Element_Draw e =
        (if (0 < v2_x (scale (onScreen e))) = (0 < v2_x (scale (onWorld e)))
            \<and> (0 < v2_y (scale (onScreen e))) = (0 < v2_y (scale (onWorld e)))
         then [DrawTexturePro (texture e) (rectangle (onWorld e)) (rectangle (onScreen e)) Vector2_zero 0 (tint e)]
         else []))
   \<and> (type e = M7_ZBT_TEXTURE
        \<and> v2_x (scale (onScreen e)) \<noteq> 0 \<and> v2_x (scale (onWorld e)) \<noteq> 0
        \<and> v2_y (scale (onScreen e)) \<noteq> 0 \<and> v2_y (scale (onWorld e)) \<noteq> 0 \<longrightarrow>
        (M7_ZBuffer_Element_Draw e \<noteq> []) =
          (sgn (v2_x (scale (onScreen e))) = sgn (v2_x (scale (onWorld e)))
           \<and> sgn (v2_y (scale (onScreen e))) = sgn (v2_y (scale (onWorld e)))))
   \<and> (type e = M7_ZBT_RECTANGLE \<longrightarrow>
        M7_ZBuffer_Element_Draw e = [DrawRectangleRec (rectangle (onScreen e)) (tint e)])
   \<and> (type e = M7_ZBT_CIRCLE \<longrightarrow>
        M7_ZBuffer_Element_Draw e =
          [DrawCircleV \<lparr>v2_x = v2_x (position_sd (onScreen e)),
                        v2_y = v2_y (position_sd (onScreen e)) - rec_width (rectangle (onScreen e))\<rparr>
             (rec_width (rectangle (onScreen e))) (tint e)])
   \<and> M7_ZBuffer_Element_Draw
        (e\<lparr>type := M7_ZBT_TEXTURE,
           onWorld := (onWorld e)\<lparr>scale := \<lparr>v2_x = 8, v2_y = 8\<rparr>\<rparr>,
           onScreen := (onScreen e)\<lparr>scale := \<lparr>v2_x = - 8, v2_y = y\<rparr>\<rparr>\<rparr>) = []
   \<and> M7_ZBuffer_Element_Draw
        (e\<lparr>type := M7_ZBT_RECTANGLE,
           onWorld := (onWorld e)\<lparr>scale := \<lparr>v2_x = 8, v2_y = 8\<rparr>\<rparr>,
           onScreen := (onScreen e)\<lparr>scale := \<lparr>v2_x = - 8, v2_y = y\<rparr>\<rparr>\<rparr>)
        = [DrawRectangleRec (rectangle (onScreen e)) (tint e)]"
proof -
  have s: "(sgn a = sgn b) = ((0 < a) = (0 < b))" if "a \<noteq> 0" "b \<noteq> 0" for a b :: real
    using that by (auto simp: sgn_if)
  show ?thesis
    by (cases "position_sd (onScreen e)")
       (auto simp: M7_ZBuffer_Element_Draw_def Let_def s)
qed

theorem Element_Draw_rule_witness:
  "type sprite_tall = M7_ZBT_TEXTURE
   \<and> M7_ZBuffer_Element_Draw (sprite_tall\<lparr>onScreen := (onScreen sprite_tall)\<lparr>scale := \<lparr>v2_x = - 4, v2_y = 2\<rparr>\<rparr>\<rparr>) = []
   \<and> M7_ZBuffer_Element_Draw (M7_Rectangle_elem \<lparr>rec_x = 64, rec_y = 64, rec_width = 16, rec_height = 16\<rparr> WHITE)
       = [DrawRectangleRec Rectangle_zero WHITE]
   \<and> M7_ZBuffer_Element_Draw (M7_Circle_elem \<lparr>v2_x = - 64, v2_y = 64\<rparr> 8 WHITE)
       = [DrawCircleV \<lparr>v2_x = 0, v2_y = 0\<rparr> 0 WHITE]"
  using Element_Draw_rule[of "sprite_tall\<lparr>onScreen := (onScreen sprite_tall)\<lparr>scale := \<lparr>v2_x = - 4, v2_y = 2\<rparr>\<rparr>\<rparr>"]
        Element_Draw_rule[of "M7_Rectangle_elem \<lparr>rec_x = 64, rec_y = 64, rec_width = 16, rec_height = 16\<rparr> WHITE"]
        Element_Draw_rule[of "M7_Circle_elem \<lparr>v2_x = - 64, v2_y = 64\<rparr> 8 WHITE"]
  by (simp add: sprite_tall_def M7_Texture_elem_def M7_Rectangle_elem_def M7_Circle_elem_def
      SpaceData_zero_def Rectangle_zero_def Vector2_zero_def)

text \<open>
  With signs read as negative, zero, positive, the claim as stated fails at a zero scale: with
  the camera's offset set to 0 the apparent size is 0, the update gives a sprite of world
  scale (-8, -8) the screen scale (0, 0), and the sprite is drawn.
\<close>

theorem Element_Draw_zero_scale_counterexample:
  "M7_ZBuffer_Element_Update sprite_mirrored (fst (M7_Camera_SetOffset camera0 0)) =
     Some (sprite_mirrored\<lparr>onScreen :=
             \<lparr>rectangle = \<lparr>rec_x = 640, rec_y = 0, rec_width = 0, rec_height = 0\<rparr>,
              position_sd = \<lparr>v2_x = 640, v2_y = 0\<rparr>,
              scale = \<lparr>v2_x = 0, v2_y = 0\<rparr>\<rparr>,
           distance := 0\<rparr>)
   \<and> type sprite_mirrored = M7_ZBT_TEXTURE
   \<and> sgn (0::real) \<noteq> sgn (v2_x (scale (onWorld sprite_mirrored)))
   \<and> M7_ZBuffer_Element_Draw
        (sprite_mirrored\<lparr>onScreen :=
             \<lparr>rectangle = \<lparr>rec_x = 640, rec_y = 0, rec_width = 0, rec_height = 0\<rparr>,
              position_sd = \<lparr>v2_x = 640, v2_y = 0\<rparr>,
              scale = \<lparr>v2_x = 0, v2_y = 0\<rparr>\<rparr>,
           distance := 0\<rparr>)
       = [DrawTexturePro \<lparr>tex_id = 7, tex_width = 16, tex_height = 16\<rparr>
            \<lparr>rec_x = 0, rec_y = 0, rec_width = 16, rec_height = 16\<rparr>
            \<lparr>rec_x = 640, rec_y = 0, rec_width = 0, rec_height = 0\<rparr> Vector2_zero 0 WHITE]"
  by (simp add: Element_Update_eq M7_ToScreen_eq sprite_mirrored_def M7_Texture_elem_def camera0_def
      M7_Camera_SetOffset_def M7_spaceX_def M7_spaceY_def Let_def signed_divide_int_def
      M7_ZBuffer_Element_Draw_def)

subsection \<open>The single-plane update\<close>

text \<open>
  Claim C9. For every camera and all arguments, \<open>M7_Camera_Update\<close> gives the same camera
  and issues the same graphics calls as \<open>M7_Camera_Begin\<close>, then \<open>M7_Camera_DrawPlane\<close>
  with the origin at half the scaled texture size, then \<open>M7_Camera_End\<close>.
\<close>

theorem Update_is_Begin_DrawPlane_End:
  "M7_run [Op_Update tex pos sc wrap backgroundColor] camera =
   M7_run [Op_Begin backgroundColor,
           Op_DrawPlane tex pos
             \<lparr>v2_x = real_of_int (tex_width tex) * v2_x sc * 0.5,
              v2_y = real_of_int (tex_height tex) * v2_y sc * 0.5\<rparr> sc wrap,
           Op_End] camera"
  by (simp add: M7_Camera_Update_def Let_def split: Option.bind_split prod.split)


subsection \<open>Capacity of the element buffer\<close>

text \<open>
  Claim C2. On a camera loaded with capacity K, the first K adds (textures, rectangles and
  circles in any mix) succeed and return the K distinct pointers to the slots 0, ..., K - 1 of
  the backing array; after them each slot still holds the element added through it, and the
  sort leaves the backing array as it is. The next add returns \<open>NULL\<close> and leaves the camera
  unchanged, as does every add on a full buffer. In every reachable state
  \<open>count \<le> maxCount\<close>.
\<close>

theorem capacity_adds:
  assumes "M7_Camera_Load env w h pos rot z f off K = Some (c0, g)"
    and "length reqs = unat K"
  shows "fst (M7_Add_calls c0 reqs) = map Some [0 ..< unat K]
       \<and> distinct (fst (M7_Add_calls c0 reqs))
       \<and> (\<forall>i < unat K. i < length (elems (buffer (snd (M7_Add_calls c0 reqs))))
             \<and> load_slot (elems (buffer (snd (M7_Add_calls c0 reqs)))) i = Some (M7_Add_elem (reqs ! i)))
       \<and> M7_Add_call (snd (M7_Add_calls c0 reqs)) r = (None, snd (M7_Add_calls c0 reqs))
       \<and> (M7_ZBuffer_Sort buf = Some buf' \<longrightarrow> elems buf' = elems buf)
       \<and> (count (buffer c) = maxCount (buffer c) \<longrightarrow> M7_Add_call c r' = (None, c))
       \<and> (reachable c \<longrightarrow> count (buffer c) \<le> maxCount (buffer c))"
proof -
  define c1 where "c1 = snd (M7_Add_calls c0 reqs)"
  have b0: "buffer c0 = M7_ZBuffer_Load K" using assms(1) by (rule Load_fields)
  have inv0: "buffer_inv (buffer c0)" by (simp add: b0 ZBuffer_Load_inv)
  have cnt0: "unat (count (buffer c0)) = 0" and max0: "maxCount (buffer c0) = K"
    by (simp_all add: b0 M7_ZBuffer_Load_def Let_def)
  have room: "unat (count (buffer c0)) + length reqs \<le> unat (maxCount (buffer c0))"
    by (simp add: cnt0 max0 assms(2))
  note run = Add_calls_run[OF inv0 room, unfolded cnt0 max0 assms(2), folded c1_def]
  from run have ptrs: "fst (M7_Add_calls c0 reqs) = map Some [0 ..< unat K]" by simp
  have dist: "distinct (fst (M7_Add_calls c0 reqs))"
    by (simp add: ptrs distinct_map)
  from run have cnt1: "unat (count (buffer c1)) = unat K" and max1: "maxCount (buffer c1) = K"
    and inv1: "buffer_inv (buffer c1)"
    and slots: "\<forall>i < unat K. load_slot (elems (buffer c1)) (0 + i) = Some (M7_Add_elem (reqs ! i))"
    by simp_all
  have len1: "length (elems (buffer c1)) = unat K"
    using inv1 by (simp add: buffer_inv_def max1)
  have full: "count (buffer c1) = maxCount (buffer c1)"
    using cnt1 by (simp add: max1 word_unat_eq_iff)
  have stable: "\<forall>i < unat K. i < length (elems (buffer c1))
             \<and> load_slot (elems (buffer c1)) i = Some (M7_Add_elem (reqs ! i))"
    using slots len1 by simp
  have next_add: "M7_Add_call c1 r = (None, c1)" using full by (rule Add_call_full)
  have sort: "M7_ZBuffer_Sort buf = Some buf' \<longrightarrow> elems buf' = elems buf"
    by (auto dest: Sort_elems)
  have any_full: "count (buffer c) = maxCount (buffer c) \<longrightarrow> M7_Add_call c r' = (None, c)"
    by (simp add: Add_call_full)
  have reach: "reachable c \<longrightarrow> count (buffer c) \<le> maxCount (buffer c)"
    by (auto dest: reachable_buffer_inv simp: buffer_inv_def)
  show ?thesis
    unfolding c1_def[symmetric] using ptrs dist stable next_add sort any_full reach by blast
qed

theorem capacity_adds_witness:
  "map_option fst (M7_Camera_Load env0 1280 720 \<lparr>v2_x = 0, v2_y = 0\<rparr> 0 80 (1 / 2) (1 / 2) 2) = Some camera0
   \<and> length adds2 = unat (2 :: 32 word)
   \<and> fst (M7_Add_calls camera0 adds2) = [Some 0, Some 1]
   \<and> M7_Add_call (snd (M7_Add_calls camera0 adds2)) add3 = (None, snd (M7_Add_calls camera0 adds2))
   \<and> reachable camera0 \<and> count (buffer camera0) \<le> maxCount (buffer camera0)"
proof -
  from Load_camera0 obtain g where
    l: "M7_Camera_Load env0 1280 720 \<lparr>v2_x = 0, v2_y = 0\<rparr> 0 80 (1 / 2) (1 / 2) 2 = Some (camera0, g)"
    by auto
  have n: "length adds2 = unat (2 :: 32 word)"
    by (simp add: adds2_def)
  have u: "[0 ..< unat (2 :: 32 word)] = [0, 1]"
    by (simp add: upt_rec)
  note t = capacity_adds[OF l n, where r = add3 and c = camera0]
  from t have p: "fst (M7_Add_calls camera0 adds2) = map Some [0 ..< unat (2 :: 32 word)]"
    by (rule conjunct1)
  from t have q: "M7_Add_call (snd (M7_Add_calls camera0 adds2)) add3 = (None, snd (M7_Add_calls camera0 adds2))"
    by blast
  from t reachable_camera0 have i: "count (buffer camera0) \<le> maxCount (buffer camera0)"
    by blast
  have p': "fst (M7_Add_calls camera0 adds2) = [Some 0, Some 1]"
    by (simp only: p u list.map)
  show ?thesis
    using Load_camera0 n p' q reachable_camera0 i by blast
qed

subsection \<open>Depth sort and draw order\<close>

text \<open>
  Claim C3. When the registered elements have pairwise distinct \<open>distance\<close> values, after
  \<open>M7_ZBuffer_Sort\<close> the \<open>distance\<close> fields read along the first \<open>count\<close> slots of the
  pointer array are non-decreasing (strictly increasing, the values being distinct); the
  sort permutes these slots and changes nothing else, and \<open>M7_ZBuffer_Draw\<close> draws the
  elements in exactly the order of the pointer array. The sort is defined on the buffer of
  every reachable camera.
\<close>

theorem Sort_ascending_Draw_in_order:
  assumes "M7_ZBuffer_Sort buf = Some buf'"
    and "distinct (map (\<lambda>a. distance (deref buf a)) (take (unat (count buf)) (ptrElems buf)))"
  shows "sorted (map (\<lambda>a. distance (deref buf' a)) (take (unat (count buf')) (ptrElems buf')))
       \<and> sorted_wrt (<) (map (\<lambda>a. distance (deref buf' a)) (take (unat (count buf')) (ptrElems buf')))
       \<and> mset (take (unat (count buf')) (ptrElems buf')) = mset (take (unat (count buf)) (ptrElems buf))
       \<and> elems buf' = elems buf \<and> count buf' = count buf
       \<and> M7_ZBuffer_Draw buf'
           = Some (concat (map (\<lambda>a. M7_ZBuffer_Element_Draw (deref buf' a))
                              (take (unat (count buf')) (ptrElems buf'))))
       \<and> (reachable camera \<longrightarrow> (\<exists>b. M7_ZBuffer_Sort (buffer camera) = Some b))"
proof -
  note r = Sort_result[OF assms(1)]
  have dr: "deref buf' = deref buf" by (rule ext) (simp add: deref_def r(2))
  have s: "sorted (map (\<lambda>a. distance (deref buf' a)) (take (unat (count buf')) (ptrElems buf')))"
    unfolding r(1) dr by (rule sorted_qsort) (rule Compare_le)
  have m: "mset (take (unat (count buf')) (ptrElems buf')) = mset (take (unat (count buf)) (ptrElems buf))"
    by (simp add: r(1) mset_qsort)
  then have "mset (map (\<lambda>a. distance (deref buf' a)) (take (unat (count buf')) (ptrElems buf')))
      = mset (map (\<lambda>a. distance (deref buf a)) (take (unat (count buf)) (ptrElems buf)))"
    by (simp add: dr)
  then have "distinct (map (\<lambda>a. distance (deref buf' a)) (take (unat (count buf')) (ptrElems buf')))
      = distinct (map (\<lambda>a. distance (deref buf a)) (take (unat (count buf)) (ptrElems buf)))"
    by (rule mset_eq_imp_distinct_iff)
  then have "distinct (map (\<lambda>a. distance (deref buf' a)) (take (unat (count buf')) (ptrElems buf')))"
    using assms(2) by (simp only:)
  then have ss: "sorted_wrt (<) (map (\<lambda>a. distance (deref buf' a)) (take (unat (count buf')) (ptrElems buf')))"
    using s by (simp add: strict_sorted_iff)
  have "set (take (unat (count buf')) (ptrElems buf')) = set (take (unat (count buf)) (ptrElems buf))"
    using m by (rule mset_eq_setD)
  then have v: "list_all (valid_ptr (elems buf')) (take (unat (count buf')) (ptrElems buf'))"
    using r(7) by (simp add: list_all_iff r(2))
  have "unat (count buf') \<le> length (ptrElems buf')" using r by simp
  then have d: "M7_ZBuffer_Draw buf'
           = Some (concat (map (\<lambda>a. M7_ZBuffer_Element_Draw (deref buf' a))
                              (take (unat (count buf')) (ptrElems buf'))))"
    using v by (rule Draw_eq)
  have e: "reachable camera \<longrightarrow> (\<exists>b. M7_ZBuffer_Sort (buffer camera) = Some b)"
    by (auto dest: reachable_buffer_inv Sort_defined)
  show ?thesis using s ss m r(2,3) d e by blast
qed

theorem Sort_ascending_Draw_in_order_witness:
  "M7_ZBuffer_Sort buffer3 = Some (buffer3\<lparr>ptrElems := [Some 1, Some 2, Some 0]\<rparr>)
   \<and> distinct (map (\<lambda>a. distance (deref buffer3 a)) (take (unat (count buffer3)) (ptrElems buffer3)))
   \<and> map (\<lambda>a. distance (deref (buffer3\<lparr>ptrElems := [Some 1, Some 2, Some 0]\<rparr>) a)) [Some 1, Some 2, Some 0]
       = [3, 4, 5]
   \<and> sorted [3, 4, 5 :: real]
   \<and> M7_ZBuffer_Draw (buffer3\<lparr>ptrElems := [Some 1, Some 2, Some 0]\<rparr>)
       = Some (concat (map (\<lambda>a. M7_ZBuffer_Element_Draw (deref buffer3 a)) [Some 1, Some 2, Some 0]))"
proof -
  have d: "distinct (map (\<lambda>a. distance (deref buffer3 a)) (take (unat (count buffer3)) (ptrElems buffer3)))"
    by (simp add: buffer3_def deref_def)
  have t: "take (unat (count (buffer3\<lparr>ptrElems := [Some 1, Some 2, Some 0]\<rparr>)))
             (ptrElems (buffer3\<lparr>ptrElems := [Some 1, Some 2, Some 0]\<rparr>)) = [Some 1, Some 2, Some 0]"
    by (simp add: buffer3_def)
  have dr: "deref (buffer3\<lparr>ptrElems := ps\<rparr>) = deref buffer3" for ps
    by (rule ext) (simp add: deref_def)
  have m: "map (\<lambda>a. distance (deref buffer3 a)) [Some 1, Some 2, Some 0] = [3, 4, 5]"
    by (simp add: buffer3_def deref_def)
  have c: "unat (count buffer3) = 3" by (simp add: buffer3_def)
  from Sort_ascending_Draw_in_order[OF Sort_buffer3 d] show ?thesis
    using Sort_buffer3 d m by (simp add: t dr c)
qed


end
